theory Spec2Isabelle
  imports Main "HOL-Library.Word"
begin

unbundle bit_operations_syntax

section \<open>Go strings and byte slices\<close>

text \<open>
  A Go string is a sequence of bytes; it is modelled as a \<^typ>\<open>string\<close> (a list of 8-bit
  characters), and \<open>len\<close> is \<^const>\<open>length\<close>. Bytes handed out by \<open>crypto/rand\<close> are
  8-bit words.
\<close>

type_synonym byte = "8 word"

definition dquote :: char where
  "dquote = CHR 0x22"

definition squote :: char where
  "squote = CHR 0x27"

definition in_range :: "char \<Rightarrow> char \<Rightarrow> char \<Rightarrow> bool" where
  "in_range lo hi c = ((of_char lo :: nat) \<le> of_char c \<and> (of_char c :: nat) \<le> of_char hi)"

text \<open>\<open>c < utf8.RuneSelf\<close>: the byte is an ASCII character.\<close>

definition isASCII :: "char \<Rightarrow> bool" where
  "isASCII c = ((of_char c :: nat) < 128)"

definition isUpper :: "char \<Rightarrow> bool" where
  "isUpper c = in_range CHR ''A'' CHR ''Z'' c"

text \<open>\<open>c += 'a' - 'A'\<close> on an upper-case ASCII letter, as \<open>strings.ToLower\<close> does.\<close>

definition lowerASCII :: "char \<Rightarrow> char" where
  "lowerASCII c = (if isUpper c then char_of (of_char c + 32 :: nat) else c)"

text \<open>
  \<open>strings.ToLower\<close>: an ASCII-only string is lowered byte by byte. A string with a byte
  \<open>\<ge> 0x80\<close> goes through \<open>strings.Map(unicode.ToLower, s)\<close>, which depends on the Unicode
  tables of the Go runtime; that path is the parameter \<open>mapLower\<close>.
\<close>

definition ToLower :: "(string \<Rightarrow> string) \<Rightarrow> string \<Rightarrow> string" where
  "ToLower mapLower s = (if list_all isASCII s then map lowerASCII s else mapLower s)"

text \<open>
  \<open>strings.ReplaceAll(s, old, new)\<close> for a pattern \<open>old\<close> of one byte, the only form the
  brokers use.
\<close>

definition ReplaceAll :: "string \<Rightarrow> char \<Rightarrow> string \<Rightarrow> string" where
  "ReplaceAll s old new = concat (map (\<lambda>c. if c = old then new else [c]) s)"

definition hextable :: string where
  "hextable = ''0123456789abcdef''"

text \<open>\<open>hex.EncodeToString\<close>: two characters per byte, high nibble first.\<close>

definition EncodeToString :: "byte list \<Rightarrow> string" where
  "EncodeToString src =
     concat (map (\<lambda>v. [hextable ! unat (drop_bit 4 v), hextable ! unat (v AND 0x0f)]) src)"

subsection \<open>The Unicode path of strings.ToLower\<close>

text \<open>
  The path of \<open>strings.ToLower\<close> for a string with a byte \<open>\<ge> 0x80\<close>:
  \<open>strings.Map(unicode.ToLower, s)\<close>. The string is read rune by rune as
  \<open>utf8.DecodeRuneInString\<close> does (a byte that starts no well-formed sequence is the rune
  \<open>utf8.RuneError\<close> of width 1), each rune is mapped, and the results that are not negative
  are written as \<open>utf8.AppendRune\<close> does. \<open>s0&mask<<n | ...\<close> is written with \<open>mod\<close>, \<open>*\<close>
  and \<open>+\<close>, the bit fields being disjoint.
\<close>

definition RuneError :: int where
  "RuneError = 0xFFFD"

definition rune2 :: "int \<Rightarrow> int \<Rightarrow> int" where
  "rune2 s0 s1 = (s0 mod 32) * 64 + s1 mod 64"

definition rune3 :: "int \<Rightarrow> int \<Rightarrow> int \<Rightarrow> int" where
  "rune3 s0 s1 s2 = (s0 mod 16) * 4096 + (s1 mod 64) * 64 + s2 mod 64"

definition rune4 :: "int \<Rightarrow> int \<Rightarrow> int \<Rightarrow> int \<Rightarrow> int" where
  "rune4 s0 s1 s2 s3 =
     (s0 mod 8) * 262144 + (s1 mod 64) * 4096 + (s2 mod 64) * 64 + s3 mod 64"

definition DecodeRuneInString :: "string \<Rightarrow> int \<times> nat" where
  "DecodeRuneInString s =
     (case s of
        [] \<Rightarrow> (RuneError, 0)
      | c0 # _ \<Rightarrow>
          let s0 = (of_char c0 :: int) in
          if s0 < 0x80 then (s0, 1)
          else if s0 < 0xC2 \<or> 0xF4 < s0 then (RuneError, 1)
          else
            let sz = (if s0 < 0xE0 then 2 else if s0 < 0xF0 then 3 else 4 :: nat);
                lo = (if s0 = 0xE0 then 0xA0 else if s0 = 0xF0 then 0x90 else 0x80 :: int);
                hi = (if s0 = 0xED then 0x9F else if s0 = 0xF4 then 0x8F else 0xBF :: int)
            in
            if length s < sz then (RuneError, 1)
            else
              let s1 = (of_char (s ! 1) :: int) in
              if s1 < lo \<or> hi < s1 then (RuneError, 1)
              else if sz \<le> 2 then (rune2 s0 s1, 2)
              else
                let s2 = (of_char (s ! 2) :: int) in
                if s2 < 0x80 \<or> 0xBF < s2 then (RuneError, 1)
                else if sz \<le> 3 then (rune3 s0 s1 s2, 3)
                else
                  let s3 = (of_char (s ! 3) :: int) in
                  if s3 < 0x80 \<or> 0xBF < s3 then (RuneError, 1)
                  else (rune4 s0 s1 s2 s3, 4))"

function runes :: "string \<Rightarrow> int list" where
  "runes s =
     (if s = [] then []
      else case DecodeRuneInString s of (r, width) \<Rightarrow> r # runes (drop width s))"
  by pat_completeness auto
termination
  by (relation "measure length")
     (auto simp add: DecodeRuneInString_def Let_def split: list.splits if_splits)

definition EncodeRune :: "int \<Rightarrow> string" where
  "EncodeRune r =
     (if 0 \<le> r \<and> r \<le> 0x7F then [char_of r]
      else if 0 \<le> r \<and> r \<le> 0x7FF then [char_of (0xC0 + r div 64), char_of (0x80 + r mod 64)]
      else if r < 0 \<or> 0x10FFFF < r \<or> (0xD800 \<le> r \<and> r \<le> 0xDFFF)
      then [CHR 0xEF, CHR 0xBF, CHR 0xBD]
      else if r \<le> 0xFFFF
      then [char_of (0xE0 + r div 4096), char_of (0x80 + (r div 64) mod 64),
            char_of (0x80 + r mod 64)]
      else [char_of (0xF0 + r div 262144), char_of (0x80 + (r div 4096) mod 64),
            char_of (0x80 + (r div 64) mod 64), char_of (0x80 + r mod 64)])"

text \<open>
  \<open>unicode.ToLower\<close>: ASCII runes are lowered by the code itself; any other rune goes
  through the case table of the Unicode data in the Go runtime, the parameter
  \<open>caseTable\<close>.
\<close>

definition unicode_ToLower :: "(int \<Rightarrow> int) \<Rightarrow> int \<Rightarrow> int" where
  "unicode_ToLower caseTable r =
     (if r \<le> 0x7F then (if 0x41 \<le> r \<and> r \<le> 0x5A then r + (0x61 - 0x41) else r)
      else caseTable r)"

definition strings_Map :: "(int \<Rightarrow> int) \<Rightarrow> string \<Rightarrow> string" where
  "strings_Map mapping s =
     concat (map (\<lambda>c. let r = mapping c in if 0 \<le> r then EncodeRune r else []) (runes s))"

section \<open>Errors, panics and log lines\<close>

text \<open>
  Errors are values. \<open>fmt.Errorf(format, args...)\<close> keeps its format and its arguments
  (\<open>%s\<close> a string, \<open>%w\<close> or \<open>%v\<close> an error); \<open>apiresponses.NewFailureResponse(err, status, key)\<close>
  keeps its three arguments. \<open>Upstream\<close> is an error made by a client library or by the
  backing engine.
\<close>

datatype error =
    ErrInstanceAlreadyExists
  | ErrInstanceDoesNotExist
  | Upstream string
  | Errorf string "fmt_arg list"
  | NewFailureResponse error nat string
and fmt_arg = S string | E error

text \<open>A call either returns or panics (a run-time error of the Go runtime).\<close>

datatype 'a outcome = Return 'a | Panic string

text \<open>\<open>log.Printf(format, args...)\<close> appends one line to the process log.\<close>

type_synonym log_line = "string \<times> fmt_arg list"

section \<open>Values of the broker API\<close>

text \<open>
  The result structs belong to the \<open>brokerapi\<close> library. The brokers build their zero
  values only, except for \<open>Binding.Credentials\<close>, a \<open>map[string]interface{}\<close> whose values
  are strings and booleans; \<open>None\<close> is the nil interface of the zero value.
\<close>

datatype go_value = String string | Bool bool

record ProvisionedServiceSpec =
  prov_IsAsync :: bool
  prov_AlreadyExists :: bool
  prov_DashboardURL :: string
  prov_OperationData :: string

record DeprovisionServiceSpec =
  deprov_IsAsync :: bool
  deprov_OperationData :: string

record Binding =
  bind_IsAsync :: bool
  bind_AlreadyExists :: bool
  bind_OperationData :: string
  Credentials :: "(string \<rightharpoonup> go_value) option"

record UnbindSpec =
  unbind_IsAsync :: bool
  unbind_OperationData :: string

record GetBindingSpec =
  getb_Credentials :: "(string \<rightharpoonup> go_value) option"
  getb_SyslogDrainURL :: string
  getb_RouteServiceURL :: string

record GetInstanceDetailsSpec =
  geti_ServiceID :: string
  geti_PlanID :: string
  geti_DashboardURL :: string

record LastOperation =
  lastop_State :: string
  lastop_Description :: string

record UpdateServiceSpec =
  upd_IsAsync :: bool
  upd_DashboardURL :: string
  upd_OperationData :: string

definition ProvisionedServiceSpec_zero :: ProvisionedServiceSpec where
  "ProvisionedServiceSpec_zero =
     \<lparr>prov_IsAsync = False, prov_AlreadyExists = False, prov_DashboardURL = [],
      prov_OperationData = []\<rparr>"

definition DeprovisionServiceSpec_zero :: DeprovisionServiceSpec where
  "DeprovisionServiceSpec_zero = \<lparr>deprov_IsAsync = False, deprov_OperationData = []\<rparr>"

definition Binding_zero :: Binding where
  "Binding_zero =
     \<lparr>bind_IsAsync = False, bind_AlreadyExists = False, bind_OperationData = [],
      Credentials = None\<rparr>"

definition UnbindSpec_zero :: UnbindSpec where
  "UnbindSpec_zero = \<lparr>unbind_IsAsync = False, unbind_OperationData = []\<rparr>"

definition GetBindingSpec_zero :: GetBindingSpec where
  "GetBindingSpec_zero =
     \<lparr>getb_Credentials = None, getb_SyslogDrainURL = [], getb_RouteServiceURL = []\<rparr>"

definition GetInstanceDetailsSpec_zero :: GetInstanceDetailsSpec where
  "GetInstanceDetailsSpec_zero =
     \<lparr>geti_ServiceID = [], geti_PlanID = [], geti_DashboardURL = []\<rparr>"

definition LastOperation_zero :: LastOperation where
  "LastOperation_zero = \<lparr>lastop_State = [], lastop_Description = []\<rparr>"

definition UpdateServiceSpec_zero :: UpdateServiceSpec where
  "UpdateServiceSpec_zero =
     \<lparr>upd_IsAsync = False, upd_DashboardURL = [], upd_OperationData = []\<rparr>"

section \<open>Credential generator\<close>

text \<open>
  \<open>rand.Read(bytes)\<close> is a parameter: called on a source state with the length of the
  buffer, it yields the bytes it wrote, an optional error and the next state. The buffer
  starts as \<open>make([]byte, length)\<close> (all zero, a panic for a negative length) and keeps
  its length whatever was written. Memory exhaustion is outside the model.
\<close>

type_synonym 'r rand_Read = "'r \<Rightarrow> nat \<Rightarrow> (byte list \<times> error option) \<times> 'r"

definition written :: "byte list \<Rightarrow> byte list \<Rightarrow> byte list" where
  "written buf data = take (length buf) data @ drop (length data) buf"

definition generateAccessKey ::
  "'r rand_Read \<Rightarrow> int \<Rightarrow> 'r \<Rightarrow> ((string \<times> error option) \<times> 'r) outcome" where
  "generateAccessKey read len r =
     (if len < 0 then Panic ''makeslice: len out of range''
      else
        let bytes = replicate (nat len) (0 :: byte);
            ((data, err), r') = read r (length bytes);
            bytes = written bytes data
        in case err of
             Some e \<Rightarrow> Return (([], Some (Errorf ''failed to generate random key: %w'' [E e])), r')
           | None \<Rightarrow> Return ((EncodeToString bytes, None), r'))"

definition generatePassword ::
  "'r rand_Read \<Rightarrow> int \<Rightarrow> 'r \<Rightarrow> ((string \<times> error option) \<times> 'r) outcome" where
  "generatePassword read len r =
     (if len < 0 then Panic ''makeslice: len out of range''
      else
        let bytes = replicate (nat len) (0 :: byte);
            ((data, err), r') = read r (length bytes);
            bytes = written bytes data
        in case err of
             Some e \<Rightarrow>
               Return (([], Some (Errorf ''failed to generate random password: %w'' [E e])), r')
           | None \<Rightarrow> Return ((EncodeToString bytes, None), r'))"

section \<open>The object-storage broker (package minio)\<close>

record minio_Broker =
  endpoint :: string
  accessKey :: string
  secretKey :: string
  useSSL :: bool

text \<open>
  What the broker calls outside its own code: the non-ASCII path of \<open>strings.ToLower\<close>,
  \<open>minio.New\<close> (only its error matters), the three bucket calls of the client on the
  object store \<open>'s\<close>, and \<open>rand.Read\<close>. \<open>BucketExists\<close> returns Go's pair
  \<open>(bool, error)\<close>; the two mutations return their error and the store they leave.
\<close>

record ('s, 'r) minio_sys =
  mapLower :: "string \<Rightarrow> string"
  minio_New :: "minio_Broker \<Rightarrow> error option"
  BucketExists :: "'s \<Rightarrow> string \<Rightarrow> bool \<times> error option"
  MakeBucket :: "'s \<Rightarrow> string \<Rightarrow> error option \<times> 's"
  RemoveBucket :: "'s \<Rightarrow> string \<Rightarrow> error option \<times> 's"
  minio_rand :: "'r rand_Read"

record ('s, 'r) minio_state =
  store :: 's
  entropy :: 'r
  logged :: "log_line list"

definition minio_Printf ::
  "string \<Rightarrow> fmt_arg list \<Rightarrow> ('s, 'r) minio_state \<Rightarrow> ('s, 'r) minio_state" where
  "minio_Printf format args st = st\<lparr>logged := logged st @ [(format, args)]\<rparr>"

definition newClient :: "('s, 'r) minio_sys \<Rightarrow> minio_Broker \<Rightarrow> error option" where
  "newClient sys b = minio_New sys b"

definition bucketName :: "(string \<Rightarrow> string) \<Rightarrow> minio_Broker \<Rightarrow> string \<Rightarrow> string" where
  "bucketName lower b instanceID =
     (let safe = ReplaceAll instanceID CHR ''_'' ''-'';
          safe = ToLower lower safe;
          name = ''cf-'' @ safe
      in if length name > 63 then take 63 name else name)"

definition minio_Provision ::
  "('s, 'r) minio_sys \<Rightarrow> minio_Broker \<Rightarrow> string \<Rightarrow> ('s, 'r) minio_state \<Rightarrow>
     (ProvisionedServiceSpec \<times> error option) \<times> ('s, 'r) minio_state" where
  "minio_Provision sys b instanceID st =
     (let bucket = bucketName (mapLower sys) b instanceID in
      case newClient sys b of
        Some err \<Rightarrow>
          ((ProvisionedServiceSpec_zero,
            Some (Errorf ''failed to create MinIO client: %w'' [E err])), st)
      | None \<Rightarrow>
         (case BucketExists sys (store st) bucket of
            (_, Some err) \<Rightarrow>
              ((ProvisionedServiceSpec_zero,
                Some (Errorf ''failed to check bucket existence: %w'' [E err])), st)
          | (exists, None) \<Rightarrow>
              if exists then ((ProvisionedServiceSpec_zero, Some ErrInstanceAlreadyExists), st)
              else
                (case MakeBucket sys (store st) bucket of
                   (Some err, s') \<Rightarrow>
                     ((ProvisionedServiceSpec_zero,
                       Some (Errorf ''failed to create bucket %s: %w'' [S bucket, E err])),
                      st\<lparr>store := s'\<rparr>)
                 | (None, s') \<Rightarrow>
                     ((ProvisionedServiceSpec_zero, None),
                      minio_Printf ''Provisioned bucket: %s'' [S bucket] (st\<lparr>store := s'\<rparr>)))))"

definition minio_Deprovision ::
  "('s, 'r) minio_sys \<Rightarrow> minio_Broker \<Rightarrow> string \<Rightarrow> ('s, 'r) minio_state \<Rightarrow>
     (DeprovisionServiceSpec \<times> error option) \<times> ('s, 'r) minio_state" where
  "minio_Deprovision sys b instanceID st =
     (let bucket = bucketName (mapLower sys) b instanceID in
      case newClient sys b of
        Some err \<Rightarrow>
          ((DeprovisionServiceSpec_zero,
            Some (Errorf ''failed to create MinIO client: %w'' [E err])), st)
      | None \<Rightarrow>
         (case BucketExists sys (store st) bucket of
            (_, Some err) \<Rightarrow>
              ((DeprovisionServiceSpec_zero,
                Some (Errorf ''failed to check bucket existence: %w'' [E err])), st)
          | (exists, None) \<Rightarrow>
              if \<not> exists then
                ((DeprovisionServiceSpec_zero, None),
                 minio_Printf ''Bucket %s already removed'' [S bucket] st)
              else
                (case RemoveBucket sys (store st) bucket of
                   (Some err, s') \<Rightarrow>
                     ((DeprovisionServiceSpec_zero,
                       Some (Errorf ''failed to remove bucket %s (it may not be empty): %w''
                               [S bucket, E err])),
                      st\<lparr>store := s'\<rparr>)
                 | (None, s') \<Rightarrow>
                     ((DeprovisionServiceSpec_zero, None),
                      minio_Printf ''Deprovisioned bucket: %s'' [S bucket]
                        (st\<lparr>store := s'\<rparr>)))))"

text \<open>
  \<open>Bind\<close>: the slice \<open>bindAccessKey[:8]\<close> of the log call panics when the key is shorter
  than eight bytes.
\<close>

definition minio_Bind ::
  "('s, 'r) minio_sys \<Rightarrow> minio_Broker \<Rightarrow> string \<Rightarrow> string \<Rightarrow> ('s, 'r) minio_state \<Rightarrow>
     ((Binding \<times> error option) \<times> ('s, 'r) minio_state) outcome" where
  "minio_Bind sys b instanceID bindingID st =
     (let bucket = bucketName (mapLower sys) b instanceID in
      case newClient sys b of
        Some err \<Rightarrow>
          Return ((Binding_zero, Some (Errorf ''failed to create MinIO client: %w'' [E err])), st)
      | None \<Rightarrow>
         (case BucketExists sys (store st) bucket of
            (_, Some err) \<Rightarrow>
              Return ((Binding_zero,
                       Some (Errorf ''failed to check bucket existence: %w'' [E err])), st)
          | (exists, None) \<Rightarrow>
              if \<not> exists then Return ((Binding_zero, Some ErrInstanceDoesNotExist), st)
              else
                (case generateAccessKey (minio_rand sys) 10 (entropy st) of
                   Panic p \<Rightarrow> Panic p
                 | Return ((_, Some err), r1) \<Rightarrow>
                     Return ((Binding_zero, Some err), st\<lparr>entropy := r1\<rparr>)
                 | Return ((bindAccessKey, None), r1) \<Rightarrow>
                    (case generateAccessKey (minio_rand sys) 20 r1 of
                       Panic p \<Rightarrow> Panic p
                     | Return ((_, Some err), r2) \<Rightarrow>
                         Return ((Binding_zero, Some err), st\<lparr>entropy := r2\<rparr>)
                     | Return ((bindSecretKey, None), r2) \<Rightarrow>
                         if length bindAccessKey < 8
                         then Panic ''slice bounds out of range''
                         else
                           Return
                             ((Binding_zero\<lparr>Credentials := Some (map_of
                                 [(''endpoint'', String (endpoint b)),
                                  (''access_key'', String bindAccessKey),
                                  (''secret_key'', String bindSecretKey),
                                  (''bucket'', String bucket),
                                  (''use_ssl'', Bool (useSSL b)),
                                  (''uri'', String (''s3://'' @ bindAccessKey @ '':'' @
                                     bindSecretKey @ ''@'' @ endpoint b @ ''/'' @ bucket))])\<rparr>,
                               None),
                              minio_Printf
                                ''Created binding for bucket: %s (access_key prefix: %s...)''
                                [S bucket, S (take 8 bindAccessKey)]
                                (st\<lparr>entropy := r2\<rparr>))))))"

definition minio_Unbind ::
  "('s, 'r) minio_sys \<Rightarrow> minio_Broker \<Rightarrow> string \<Rightarrow> string \<Rightarrow> ('s, 'r) minio_state \<Rightarrow>
     (UnbindSpec \<times> error option) \<times> ('s, 'r) minio_state" where
  "minio_Unbind sys b instanceID bindingID st =
     (let bucket = bucketName (mapLower sys) b instanceID in
      ((UnbindSpec_zero, None),
       minio_Printf ''Removed binding %s for bucket: %s'' [S bindingID, S bucket] st))"

text \<open>
  The unsupported operations ignore every argument; \<open>'d\<close> stands for the library's detail
  structs.
\<close>

definition minio_GetBinding ::
  "minio_Broker \<Rightarrow> string \<Rightarrow> string \<Rightarrow> 'd \<Rightarrow> GetBindingSpec \<times> error option" where
  "minio_GetBinding b instanceID bindingID details =
     (GetBindingSpec_zero,
      Some (NewFailureResponse (Errorf ''GetBinding not supported'' []) 404 ''not-found''))"

definition minio_GetInstance ::
  "minio_Broker \<Rightarrow> string \<Rightarrow> 'd \<Rightarrow> GetInstanceDetailsSpec \<times> error option" where
  "minio_GetInstance b instanceID details =
     (GetInstanceDetailsSpec_zero,
      Some (NewFailureResponse (Errorf ''GetInstance not supported'' []) 404 ''not-found''))"

definition minio_LastOperation ::
  "minio_Broker \<Rightarrow> string \<Rightarrow> 'd \<Rightarrow> LastOperation \<times> error option" where
  "minio_LastOperation b instanceID details =
     (LastOperation_zero,
      Some (NewFailureResponse (Errorf ''LastOperation not supported'' []) 404 ''not-found''))"

definition minio_LastBindingOperation ::
  "minio_Broker \<Rightarrow> string \<Rightarrow> string \<Rightarrow> 'd \<Rightarrow> LastOperation \<times> error option" where
  "minio_LastBindingOperation b instanceID bindingID details =
     (LastOperation_zero,
      Some (NewFailureResponse (Errorf ''LastBindingOperation not supported'' []) 404
              ''not-found''))"

definition minio_Update ::
  "minio_Broker \<Rightarrow> string \<Rightarrow> 'd \<Rightarrow> bool \<Rightarrow> UpdateServiceSpec \<times> error option" where
  "minio_Update b instanceID details asyncAllowed =
     (UpdateServiceSpec_zero,
      Some (NewFailureResponse (Errorf ''Update not supported'' []) 422 ''unprocessable''))"

section \<open>The relational broker (package postgres)\<close>

record postgres_Broker =
  host :: string
  port :: string
  adminUser :: string
  adminPass :: string

text \<open>
  What the broker calls outside its own code: \<open>sql.Open\<close> on the connection string (only
  its error matters), \<open>db.QueryRow(query, args...).Scan(&exists)\<close> (the scanned boolean and
  the error), \<open>db.Exec(query, args...)\<close> (its error and the engine state it leaves), and
  \<open>rand.Read\<close>. The deferred \<open>db.Close()\<close>, whose result the code drops, is not modelled.
\<close>

record ('db, 'r) postgres_sys =
  sql_Open :: "string \<Rightarrow> error option"
  QueryRow_Scan :: "'db \<Rightarrow> string \<Rightarrow> string list \<Rightarrow> bool \<times> error option"
  db_Exec :: "'db \<Rightarrow> string \<Rightarrow> string list \<Rightarrow> error option \<times> 'db"
  postgres_rand :: "'r rand_Read"

text \<open>
  The state around a call: the engine, the source of random bytes and the process log.
  \<open>issued\<close> is bookkeeping of the model, not of the broker: every statement text handed to
  \<open>QueryRow\<close> or \<open>Exec\<close>, with its bound arguments, in order.
\<close>

record ('db, 'r) postgres_state =
  engine :: 'db
  issued :: "(string \<times> string list) list"
  pg_entropy :: 'r
  pg_logged :: "log_line list"

definition postgres_Printf ::
  "string \<Rightarrow> fmt_arg list \<Rightarrow> ('db, 'r) postgres_state \<Rightarrow> ('db, 'r) postgres_state" where
  "postgres_Printf format args st = st\<lparr>pg_logged := pg_logged st @ [(format, args)]\<rparr>"

definition QueryRow ::
  "('db, 'r) postgres_sys \<Rightarrow> string \<Rightarrow> string list \<Rightarrow> ('db, 'r) postgres_state \<Rightarrow>
     (bool \<times> error option) \<times> ('db, 'r) postgres_state" where
  "QueryRow sys query args st =
     (QueryRow_Scan sys (engine st) query args, st\<lparr>issued := issued st @ [(query, args)]\<rparr>)"

definition Exec ::
  "('db, 'r) postgres_sys \<Rightarrow> string \<Rightarrow> string list \<Rightarrow> ('db, 'r) postgres_state \<Rightarrow>
     error option \<times> ('db, 'r) postgres_state" where
  "Exec sys query args st =
     (case db_Exec sys (engine st) query args of
        (err, d) \<Rightarrow> (err, st\<lparr>engine := d, issued := issued st @ [(query, args)]\<rparr>))"

definition connectAdmin :: "('db, 'r) postgres_sys \<Rightarrow> postgres_Broker \<Rightarrow> error option" where
  "connectAdmin sys b =
     (let connStr = ''host='' @ host b @ '' port='' @ port b @ '' user='' @ adminUser b @
                    '' password='' @ adminPass b @ '' dbname=postgres sslmode=disable''
      in sql_Open sys connStr)"

text \<open>The character class \<open>[a-zA-Z0-9_]\<close> of both regular expressions.\<close>

definition identChar :: "char \<Rightarrow> bool" where
  "identChar c =
     (in_range CHR ''a'' CHR ''z'' c \<or> in_range CHR ''A'' CHR ''Z'' c \<or>
      in_range CHR ''0'' CHR ''9'' c \<or> c = CHR ''_'')"

text \<open>
  \<open>regexp.MustCompile(`[^a-zA-Z0-9_]`).ReplaceAllString(s, "")\<close> deletes every rune outside
  the class. Every byte of a multi-byte or malformed UTF-8 sequence is at least \<open>0x80\<close>, so
  on bytes the call keeps exactly the bytes of the class.
\<close>

definition sanitizeIdentifier :: "string \<Rightarrow> string" where
  "sanitizeIdentifier id' =
     (let s = ReplaceAll id' CHR ''-'' ''_'';
          safe = filter identChar s
      in safe)"

definition dbName :: "postgres_Broker \<Rightarrow> string \<Rightarrow> string" where
  "dbName b instanceID = (let safe = sanitizeIdentifier instanceID in ''cf_'' @ safe)"

definition roleName :: "postgres_Broker \<Rightarrow> string \<Rightarrow> string" where
  "roleName b bindingID = (let safe = sanitizeIdentifier bindingID in ''cf_'' @ safe)"

text \<open>\<open>identifierPattern.MatchString(name)\<close> for the pattern \<open>^[a-zA-Z0-9_]+$\<close>.\<close>

definition identifierPattern :: "string \<Rightarrow> bool" where
  "identifierPattern name = (name \<noteq> [] \<and> list_all identChar name)"

definition validateIdentifier :: "string \<Rightarrow> error option" where
  "validateIdentifier name =
     (if \<not> identifierPattern name then Some (Errorf ''invalid identifier: %s'' [S name])
      else None)"

definition quoteIdentifier :: "string \<Rightarrow> string" where
  "quoteIdentifier s = [dquote] @ ReplaceAll s dquote [dquote, dquote] @ [dquote]"

definition quoteLiteral :: "string \<Rightarrow> string" where
  "quoteLiteral s = [squote] @ ReplaceAll s squote [squote, squote] @ [squote]"

definition postgres_Provision ::
  "('db, 'r) postgres_sys \<Rightarrow> postgres_Broker \<Rightarrow> string \<Rightarrow> ('db, 'r) postgres_state \<Rightarrow>
     (ProvisionedServiceSpec \<times> error option) \<times> ('db, 'r) postgres_state" where
  "postgres_Provision sys b instanceID st =
     (let name = dbName b instanceID in
      case validateIdentifier name of
        Some err \<Rightarrow> ((ProvisionedServiceSpec_zero, Some err), st)
      | None \<Rightarrow>
         (case connectAdmin sys b of
            Some err \<Rightarrow>
              ((ProvisionedServiceSpec_zero,
                Some (Errorf ''failed to connect to PostgreSQL: %w'' [E err])), st)
          | None \<Rightarrow>
             (case QueryRow sys ''SELECT EXISTS(SELECT 1 FROM pg_database WHERE datname = $1)''
                     [name] st of
                ((_, Some err), st1) \<Rightarrow>
                  ((ProvisionedServiceSpec_zero,
                    Some (Errorf ''failed to check database existence: %w'' [E err])), st1)
              | ((exists, None), st1) \<Rightarrow>
                  if exists
                  then ((ProvisionedServiceSpec_zero, Some ErrInstanceAlreadyExists), st1)
                  else
                    (case Exec sys (''CREATE DATABASE '' @ quoteIdentifier name) [] st1 of
                       (Some err, st2) \<Rightarrow>
                         ((ProvisionedServiceSpec_zero,
                           Some (Errorf ''failed to create database %s: %w'' [S name, E err])),
                          st2)
                     | (None, st2) \<Rightarrow>
                         ((ProvisionedServiceSpec_zero, None),
                          postgres_Printf ''Provisioned database: %s'' [S name] st2)))))"

definition postgres_Deprovision ::
  "('db, 'r) postgres_sys \<Rightarrow> postgres_Broker \<Rightarrow> string \<Rightarrow> ('db, 'r) postgres_state \<Rightarrow>
     (DeprovisionServiceSpec \<times> error option) \<times> ('db, 'r) postgres_state" where
  "postgres_Deprovision sys b instanceID st =
     (let name = dbName b instanceID in
      case validateIdentifier name of
        Some err \<Rightarrow> ((DeprovisionServiceSpec_zero, Some err), st)
      | None \<Rightarrow>
         (case connectAdmin sys b of
            Some err \<Rightarrow>
              ((DeprovisionServiceSpec_zero,
                Some (Errorf ''failed to connect to PostgreSQL: %w'' [E err])), st)
          | None \<Rightarrow>
             (let (err1, st1) =
                    Exec sys
                      (''SELECT pg_terminate_backend(pid) FROM pg_stat_activity '' @
                       ''WHERE datname = $1 AND pid <> pg_backend_pid()'')
                      [name] st;
                  st2 = (case err1 of
                           Some err \<Rightarrow>
                             postgres_Printf ''Warning: failed to terminate connections to %s: %v''
                               [S name, E err] st1
                         | None \<Rightarrow> st1)
              in case Exec sys (''DROP DATABASE IF EXISTS '' @ quoteIdentifier name) [] st2 of
                   (Some err, st3) \<Rightarrow>
                     ((DeprovisionServiceSpec_zero,
                       Some (Errorf ''failed to drop database %s: %w'' [S name, E err])), st3)
                 | (None, st3) \<Rightarrow>
                     ((DeprovisionServiceSpec_zero, None),
                      postgres_Printf ''Deprovisioned database: %s'' [S name] st3))))"

definition postgres_Bind ::
  "('db, 'r) postgres_sys \<Rightarrow> postgres_Broker \<Rightarrow> string \<Rightarrow> string \<Rightarrow>
     ('db, 'r) postgres_state \<Rightarrow>
     ((Binding \<times> error option) \<times> ('db, 'r) postgres_state) outcome" where
  "postgres_Bind sys b instanceID bindingID st =
     (let name = dbName b instanceID;
          role = roleName b bindingID
      in
      case validateIdentifier name of
        Some err \<Rightarrow> Return ((Binding_zero, Some err), st)
      | None \<Rightarrow>
      (case validateIdentifier role of
        Some err \<Rightarrow> Return ((Binding_zero, Some err), st)
      | None \<Rightarrow>
      (case generatePassword (postgres_rand sys) 16 (pg_entropy st) of
        Panic p \<Rightarrow> Panic p
      | Return ((_, Some err), r1) \<Rightarrow> Return ((Binding_zero, Some err), st\<lparr>pg_entropy := r1\<rparr>)
      | Return ((password, None), r1) \<Rightarrow>
      (case connectAdmin sys b of
        Some err \<Rightarrow>
          Return ((Binding_zero, Some (Errorf ''failed to connect to PostgreSQL: %w'' [E err])),
                  st\<lparr>pg_entropy := r1\<rparr>)
      | None \<Rightarrow>
      (case Exec sys (''CREATE ROLE '' @ quoteIdentifier role @ '' WITH LOGIN PASSWORD '' @
                      quoteLiteral password) [] (st\<lparr>pg_entropy := r1\<rparr>) of
        (Some err, st1) \<Rightarrow>
          Return ((Binding_zero, Some (Errorf ''failed to create role %s: %w'' [S role, E err])),
                  st1)
      | (None, st1) \<Rightarrow>
      (case Exec sys (''GRANT ALL PRIVILEGES ON DATABASE '' @ quoteIdentifier name @ '' TO '' @
                      quoteIdentifier role) [] st1 of
        (Some err, st2) \<Rightarrow>
          Return ((Binding_zero, Some (Errorf ''failed to grant privileges: %w'' [E err])), st2)
      | (None, st2) \<Rightarrow>
          (let uri = ''postgres://'' @ role @ '':'' @ password @ ''@'' @ host b @ '':'' @
                     port b @ ''/'' @ name
           in Return
                ((Binding_zero\<lparr>Credentials := Some (map_of
                    [(''host'', String (host b)),
                     (''port'', String (port b)),
                     (''database'', String name),
                     (''username'', String role),
                     (''password'', String password),
                     (''uri'', String uri)])\<rparr>,
                  None),
                 postgres_Printf ''Created binding: role=%s database=%s'' [S role, S name]
                   st2))))))))"

definition postgres_Unbind ::
  "('db, 'r) postgres_sys \<Rightarrow> postgres_Broker \<Rightarrow> string \<Rightarrow> string \<Rightarrow>
     ('db, 'r) postgres_state \<Rightarrow> (UnbindSpec \<times> error option) \<times> ('db, 'r) postgres_state" where
  "postgres_Unbind sys b instanceID bindingID st =
     (let name = dbName b instanceID;
          role = roleName b bindingID
      in
      case validateIdentifier name of
        Some err \<Rightarrow> ((UnbindSpec_zero, Some err), st)
      | None \<Rightarrow>
      (case validateIdentifier role of
        Some err \<Rightarrow> ((UnbindSpec_zero, Some err), st)
      | None \<Rightarrow>
      (case connectAdmin sys b of
        Some err \<Rightarrow>
          ((UnbindSpec_zero, Some (Errorf ''failed to connect to PostgreSQL: %w'' [E err])), st)
      | None \<Rightarrow>
         (let (err1, st1) =
                Exec sys (''REVOKE ALL PRIVILEGES ON DATABASE '' @ quoteIdentifier name @
                          '' FROM '' @ quoteIdentifier role) [] st;
              st2 = (case err1 of
                       Some err \<Rightarrow>
                         postgres_Printf ''Warning: failed to revoke privileges for %s: %v''
                           [S role, E err] st1
                     | None \<Rightarrow> st1)
          in case Exec sys (''DROP ROLE IF EXISTS '' @ quoteIdentifier role) [] st2 of
               (Some err, st3) \<Rightarrow>
                 ((UnbindSpec_zero,
                   Some (Errorf ''failed to drop role %s: %w'' [S role, E err])), st3)
             | (None, st3) \<Rightarrow>
                 ((UnbindSpec_zero, None),
                  postgres_Printf ''Removed binding: role=%s database=%s'' [S role, S name]
                    st3)))))"

definition postgres_GetBinding ::
  "postgres_Broker \<Rightarrow> string \<Rightarrow> string \<Rightarrow> 'd \<Rightarrow> GetBindingSpec \<times> error option" where
  "postgres_GetBinding b instanceID bindingID details =
     (GetBindingSpec_zero,
      Some (NewFailureResponse (Errorf ''GetBinding not supported'' []) 404 ''not-found''))"

definition postgres_GetInstance ::
  "postgres_Broker \<Rightarrow> string \<Rightarrow> 'd \<Rightarrow> GetInstanceDetailsSpec \<times> error option" where
  "postgres_GetInstance b instanceID details =
     (GetInstanceDetailsSpec_zero,
      Some (NewFailureResponse (Errorf ''GetInstance not supported'' []) 404 ''not-found''))"

definition postgres_LastOperation ::
  "postgres_Broker \<Rightarrow> string \<Rightarrow> 'd \<Rightarrow> LastOperation \<times> error option" where
  "postgres_LastOperation b instanceID details =
     (LastOperation_zero,
      Some (NewFailureResponse (Errorf ''LastOperation not supported'' []) 404 ''not-found''))"

definition postgres_LastBindingOperation ::
  "postgres_Broker \<Rightarrow> string \<Rightarrow> string \<Rightarrow> 'd \<Rightarrow> LastOperation \<times> error option" where
  "postgres_LastBindingOperation b instanceID bindingID details =
     (LastOperation_zero,
      Some (NewFailureResponse (Errorf ''LastBindingOperation not supported'' []) 404
              ''not-found''))"

definition postgres_Update ::
  "postgres_Broker \<Rightarrow> string \<Rightarrow> 'd \<Rightarrow> bool \<Rightarrow> UpdateServiceSpec \<times> error option" where
  "postgres_Update b instanceID details asyncAllowed =
     (UpdateServiceSpec_zero,
      Some (NewFailureResponse (Errorf ''Update not supported'' []) 422 ''unprocessable''))"

section \<open>In-memory engines\<close>

text \<open>
  Small executable stand-ins for the two backing engines, the case table and the random
  source, used to run the brokers on concrete inputs. The object store maps each bucket to its number
  of objects; the random source hands out a prepared list of bytes and fails once the
  list is too short.
\<close>

type_synonym mem_store = "(string \<times> nat) list"

definition mem_BucketExists :: "mem_store \<Rightarrow> string \<Rightarrow> bool \<times> error option" where
  "mem_BucketExists s n = (n \<in> set (map fst s), None)"

definition mem_MakeBucket :: "mem_store \<Rightarrow> string \<Rightarrow> error option \<times> mem_store" where
  "mem_MakeBucket s n =
     (if n \<in> set (map fst s) then (Some (Upstream ''BucketAlreadyOwnedByYou''), s)
      else (None, (n, 0) # s))"

definition mem_RemoveBucket :: "mem_store \<Rightarrow> string \<Rightarrow> error option \<times> mem_store" where
  "mem_RemoveBucket s n =
     (case map_of s n of
        None \<Rightarrow> (Some (Upstream ''NoSuchBucket''), s)
      | Some k \<Rightarrow>
          if 0 < k then (Some (Upstream ''BucketNotEmpty''), s)
          else (None, filter (\<lambda>e. fst e \<noteq> n) s))"

definition mem_rand :: "byte list rand_Read" where
  "mem_rand r n =
     (if n \<le> length r then ((take n r, None), drop n r)
      else (([], Some (Upstream ''entropy source unavailable'')), r))"

text \<open>
  An excerpt of the case table: the Latin-1 capitals, and the two runes outside ASCII
  whose lower case is an ASCII letter (U+0130 and the Kelvin sign U+212A).
\<close>

definition case_excerpt :: "int \<Rightarrow> int" where
  "case_excerpt r =
     (if 0xC0 \<le> r \<and> r \<le> 0xDE \<and> r \<noteq> 0xD7 then r + 32
      else if r = 0x130 then 0x69
      else if r = 0x212A then 0x6B
      else r)"

definition mem_minio :: "(mem_store, byte list) minio_sys" where
  "mem_minio =
     \<lparr>mapLower = strings_Map (unicode_ToLower case_excerpt), minio_New = (\<lambda>b. None),
      BucketExists = mem_BucketExists, MakeBucket = mem_MakeBucket,
      RemoveBucket = mem_RemoveBucket, minio_rand = mem_rand\<rparr>"

definition minio_broker0 :: minio_Broker where
  "minio_broker0 =
     \<lparr>endpoint = ''minio.default.svc.cluster.local:9000'', accessKey = ''admin'',
      secretKey = ''secret'', useSSL = False\<rparr>"

definition minio_state0 :: "mem_store \<Rightarrow> byte list \<Rightarrow> (mem_store, byte list) minio_state" where
  "minio_state0 s r = \<lparr>store = s, entropy = r, logged = []\<rparr>"

text \<open>
  The relational stand-in keeps the names of its databases and roles and reads the
  statements the broker builds: a keyword prefix, then identifiers in double quotes.
\<close>

record mem_db =
  dbs :: "string list"
  roles :: "string list"

fun strip_prefix :: "string \<Rightarrow> string \<Rightarrow> string option" where
  "strip_prefix [] s = Some s"
| "strip_prefix (p # ps) [] = None"
| "strip_prefix (p # ps) (c # cs) = (if p = c then strip_prefix ps cs else None)"

definition read_ident :: "string \<Rightarrow> (string \<times> string) option" where
  "read_ident s =
     (case s of
        [] \<Rightarrow> None
      | c # cs \<Rightarrow>
          if c \<noteq> dquote then None
          else (case dropWhile (\<lambda>x. x \<noteq> dquote) cs of
                  [] \<Rightarrow> None
                | _ # rest \<Rightarrow> Some (takeWhile (\<lambda>x. x \<noteq> dquote) cs, rest)))"

definition syntax_error :: error where
  "syntax_error = Upstream ''syntax error''"

definition mem_Exec :: "mem_db \<Rightarrow> string \<Rightarrow> string list \<Rightarrow> error option \<times> mem_db" where
  "mem_Exec d q args =
     (case strip_prefix ''CREATE DATABASE '' q of
        Some r \<Rightarrow>
          (case read_ident r of
             None \<Rightarrow> (Some syntax_error, d)
           | Some (n, _) \<Rightarrow>
               if n \<in> set (dbs d) then (Some (Upstream ''database already exists''), d)
               else (None, d\<lparr>dbs := n # dbs d\<rparr>))
      | None \<Rightarrow>
     (case strip_prefix ''DROP DATABASE IF EXISTS '' q of
        Some r \<Rightarrow>
          (case read_ident r of
             None \<Rightarrow> (Some syntax_error, d)
           | Some (n, _) \<Rightarrow> (None, d\<lparr>dbs := removeAll n (dbs d)\<rparr>))
      | None \<Rightarrow>
     (case strip_prefix ''CREATE ROLE '' q of
        Some r \<Rightarrow>
          (case read_ident r of
             None \<Rightarrow> (Some syntax_error, d)
           | Some (n, _) \<Rightarrow>
               if n \<in> set (roles d) then (Some (Upstream ''role already exists''), d)
               else (None, d\<lparr>roles := n # roles d\<rparr>))
      | None \<Rightarrow>
     (case strip_prefix ''DROP ROLE IF EXISTS '' q of
        Some r \<Rightarrow>
          (case read_ident r of
             None \<Rightarrow> (Some syntax_error, d)
           | Some (n, _) \<Rightarrow> (None, d\<lparr>roles := removeAll n (roles d)\<rparr>))
      | None \<Rightarrow>
     (case strip_prefix ''GRANT ALL PRIVILEGES ON DATABASE '' q of
        Some r \<Rightarrow>
          (case read_ident r of
             None \<Rightarrow> (Some syntax_error, d)
           | Some (n, r1) \<Rightarrow>
              (case strip_prefix '' TO '' r1 of
                 None \<Rightarrow> (Some syntax_error, d)
               | Some r2 \<Rightarrow>
                  (case read_ident r2 of
                     None \<Rightarrow> (Some syntax_error, d)
                   | Some (ro, _) \<Rightarrow>
                       if n \<notin> set (dbs d) then (Some (Upstream ''database does not exist''), d)
                       else if ro \<notin> set (roles d)
                       then (Some (Upstream ''role does not exist''), d)
                       else (None, d))))
      | None \<Rightarrow>
     (case strip_prefix ''REVOKE ALL PRIVILEGES ON DATABASE '' q of
        Some r \<Rightarrow>
          (case read_ident r of
             None \<Rightarrow> (Some syntax_error, d)
           | Some (n, r1) \<Rightarrow>
              (case strip_prefix '' FROM '' r1 of
                 None \<Rightarrow> (Some syntax_error, d)
               | Some r2 \<Rightarrow>
                  (case read_ident r2 of
                     None \<Rightarrow> (Some syntax_error, d)
                   | Some (ro, _) \<Rightarrow>
                       if n \<notin> set (dbs d) then (Some (Upstream ''database does not exist''), d)
                       else if ro \<notin> set (roles d)
                       then (Some (Upstream ''role does not exist''), d)
                       else (None, d))))
      | None \<Rightarrow>
     (case strip_prefix ''SELECT pg_terminate_backend'' q of
        Some r \<Rightarrow> (None, d)
      | None \<Rightarrow> (Some syntax_error, d))))))))"

definition mem_QueryRow_Scan :: "mem_db \<Rightarrow> string \<Rightarrow> string list \<Rightarrow> bool \<times> error option" where
  "mem_QueryRow_Scan d q args =
     (case args of
        [n] \<Rightarrow> (n \<in> set (dbs d), None)
      | _ \<Rightarrow> (False, Some syntax_error))"

definition mem_postgres :: "(mem_db, byte list) postgres_sys" where
  "mem_postgres =
     \<lparr>sql_Open = (\<lambda>c. None), QueryRow_Scan = mem_QueryRow_Scan, db_Exec = mem_Exec,
      postgres_rand = mem_rand\<rparr>"

text \<open>An engine that cannot be reached: every statement fails and changes nothing.\<close>

definition down_postgres :: "(mem_db, byte list) postgres_sys" where
  "down_postgres =
     \<lparr>sql_Open = (\<lambda>c. None),
      QueryRow_Scan = (\<lambda>d q args. (False, Some (Upstream ''connection refused''))),
      db_Exec = (\<lambda>d q args. (Some (Upstream ''connection refused''), d)),
      postgres_rand = mem_rand\<rparr>"

definition postgres_broker0 :: postgres_Broker where
  "postgres_broker0 =
     \<lparr>host = ''postgresql.default.svc.cluster.local'', port = ''5432'',
      adminUser = ''postgres'', adminPass = ''pgpass''\<rparr>"

definition postgres_state0 ::
  "string list \<Rightarrow> string list \<Rightarrow> byte list \<Rightarrow> (mem_db, byte list) postgres_state" where
  "postgres_state0 ds rs r =
     \<lparr>engine = \<lparr>dbs = ds, roles = rs\<rparr>, issued = [], pg_entropy = r, pg_logged = []\<rparr>"

section \<open>Predicates of the statements\<close>

text \<open>
  The alphabet of an S3 bucket name: lower-case letters, digits, hyphen and dot.
\<close>

definition bucketChar :: "char \<Rightarrow> bool" where
  "bucketChar c =
     (in_range CHR ''a'' CHR ''z'' c \<or> in_range CHR ''0'' CHR ''9'' c \<or> c = CHR ''-'' \<or>
      c = CHR ''.'')"

text \<open>A lower-case hexadecimal digit.\<close>

definition lowerHex :: "char \<Rightarrow> bool" where
  "lowerHex c = (in_range CHR ''0'' CHR ''9'' c \<or> in_range CHR ''a'' CHR ''f'' c)"

text \<open>What a call returned, if it did not panic.\<close>

definition returned :: "'a outcome \<Rightarrow> 'a option" where
  "returned x = (case x of Return v \<Rightarrow> Some v | Panic p \<Rightarrow> None)"

text \<open>
  Reading a statement text from left to right: outside quotes only upper-case letters and
  blanks (the keywords); between double quotes only characters of \<open>[a-zA-Z0-9_]\<close>; between
  single quotes only lower-case hexadecimal digits; every quote closed at the end.
\<close>

datatype quoting = Unquoted | Identifier | Literal

fun well_quoted :: "quoting \<Rightarrow> string \<Rightarrow> bool" where
  "well_quoted Unquoted [] = True"
| "well_quoted Identifier [] = False"
| "well_quoted Literal [] = False"
| "well_quoted Unquoted (c # cs) =
     (if c = dquote then well_quoted Identifier cs
      else if c = squote then well_quoted Literal cs
      else (isUpper c \<or> c = CHR '' '') \<and> well_quoted Unquoted cs)"
| "well_quoted Identifier (c # cs) =
     (if c = dquote then well_quoted Unquoted cs else identChar c \<and> well_quoted Identifier cs)"
| "well_quoted Literal (c # cs) =
     (if c = squote then well_quoted Unquoted cs else lowerHex c \<and> well_quoted Literal cs)"

text \<open>
  The two statements that bind the derived name as the parameter \<open>$1\<close>, and the statement
  texts each lifecycle call of the relational broker builds, in the order of the code.
  A statement is safe when it is one of the two parameterised queries with one bound
  argument, or a built text without arguments that reads as above.
\<close>

definition exists_query :: string where
  "exists_query = ''SELECT EXISTS(SELECT 1 FROM pg_database WHERE datname = $1)''"

definition terminate_query :: string where
  "terminate_query =
     ''SELECT pg_terminate_backend(pid) FROM pg_stat_activity '' @
     ''WHERE datname = $1 AND pid <> pg_backend_pid()''"

definition safe_statement :: "string \<times> string list \<Rightarrow> bool" where
  "safe_statement qa =
     (if fst qa = exists_query \<or> fst qa = terminate_query then length (snd qa) = 1
      else snd qa = [] \<and> well_quoted Unquoted (fst qa))"

definition Provision_statements :: "postgres_Broker \<Rightarrow> string \<Rightarrow> (string \<times> string list) list" where
  "Provision_statements b instanceID =
     [(exists_query, [dbName b instanceID]),
      (''CREATE DATABASE '' @ quoteIdentifier (dbName b instanceID), [])]"

definition Deprovision_statements :: "postgres_Broker \<Rightarrow> string \<Rightarrow> (string \<times> string list) list" where
  "Deprovision_statements b instanceID =
     [(terminate_query, [dbName b instanceID]),
      (''DROP DATABASE IF EXISTS '' @ quoteIdentifier (dbName b instanceID), [])]"

definition Bind_statements ::
  "postgres_Broker \<Rightarrow> string \<Rightarrow> string \<Rightarrow> string \<Rightarrow> (string \<times> string list) list" where
  "Bind_statements b instanceID bindingID password =
     [(''CREATE ROLE '' @ quoteIdentifier (roleName b bindingID) @ '' WITH LOGIN PASSWORD '' @
       quoteLiteral password, []),
      (''GRANT ALL PRIVILEGES ON DATABASE '' @ quoteIdentifier (dbName b instanceID) @
       '' TO '' @ quoteIdentifier (roleName b bindingID), [])]"

definition Unbind_statements ::
  "postgres_Broker \<Rightarrow> string \<Rightarrow> string \<Rightarrow> (string \<times> string list) list" where
  "Unbind_statements b instanceID bindingID =
     [(''REVOKE ALL PRIVILEGES ON DATABASE '' @ quoteIdentifier (dbName b instanceID) @
       '' FROM '' @ quoteIdentifier (roleName b bindingID), []),
      (''DROP ROLE IF EXISTS '' @ quoteIdentifier (roleName b bindingID), [])]"

section \<open>Naming and sanitization\<close>

lemma ReplaceAll_Nil: "ReplaceAll [] old new = []"
  by (simp add: ReplaceAll_def)

lemma ReplaceAll_Cons:
  "ReplaceAll (c # s) old new = (if c = old then new else [c]) @ ReplaceAll s old new"
  by (simp add: ReplaceAll_def)

lemma ReplaceAll_absent: "old \<notin> set s \<Longrightarrow> ReplaceAll s old new = s"
  by (induction s) (auto simp: ReplaceAll_Nil ReplaceAll_Cons)

lemma ReplaceAll_one: "ReplaceAll s old [new] = map (\<lambda>c. if c = old then new else c) s"
  by (induction s) (auto simp: ReplaceAll_Nil ReplaceAll_Cons)

lemma identChar_sanitize: "list_all identChar (sanitizeIdentifier s)"
  by (simp add: sanitizeIdentifier_def list_all_iff)

lemma identChar_prefix: "list_all identChar ''cf_''"
  by (simp add: identChar_def in_range_def)

lemma identifierPattern_dbName: "identifierPattern (dbName b i)"
  using identChar_sanitize[of i] identChar_prefix
  by (simp add: identifierPattern_def dbName_def)

lemma identifierPattern_roleName: "identifierPattern (roleName b i)"
  using identChar_sanitize[of i] identChar_prefix
  by (simp add: identifierPattern_def roleName_def)

lemma validate_dbName: "validateIdentifier (dbName b i) = None"
  by (simp add: validateIdentifier_def identifierPattern_dbName)

lemma validate_roleName: "validateIdentifier (roleName b i) = None"
  by (simp add: validateIdentifier_def identifierPattern_roleName)

lemma sanitize_identity:
  assumes "list_all identChar i"
  shows "sanitizeIdentifier i = i"
proof -
  from assms have "CHR ''-'' \<notin> set i"
    by (auto simp: list_all_iff identChar_def in_range_def)
  then have "ReplaceAll i CHR ''-'' ''_'' = i" by (rule ReplaceAll_absent)
  with assms show ?thesis by (simp add: sanitizeIdentifier_def list_all_iff)
qed

lemma bucketName_take:
  "bucketName lower b i = take 63 (''cf-'' @ ToLower lower (ReplaceAll i CHR ''_'' ''-''))"
  by (simp add: bucketName_def Let_def)

lemma length_bucketName:
  "length (bucketName lower b i) \<le> 63 \<and> 3 \<le> length (bucketName lower b i)"
  by (simp add: bucketName_take)

lemma bucketName_prefix: "take 3 (bucketName lower b i) = ''cf-''"
  by (simp add: bucketName_take)

lemma list_all_take: "list_all P xs \<Longrightarrow> list_all P (take n xs)"
  by (auto simp: list_all_iff dest: in_set_takeD)

lemma lowerASCII_not_upper: "\<not> isUpper (lowerASCII c)"
  by (simp add: lowerASCII_def isUpper_def in_range_def)

lemma of_char_lowerASCII: "isUpper c \<Longrightarrow> (of_char (lowerASCII c) :: nat) = of_char c + 32"
  by (simp add: lowerASCII_def isUpper_def in_range_def)

lemma lowerASCII_not_underscore:
  assumes "c \<noteq> CHR ''_''"
  shows "lowerASCII c \<noteq> CHR ''_''"
proof (cases "isUpper c")
  case True
  show ?thesis
  proof
    assume "lowerASCII c = CHR ''_''"
    then have "(of_char (lowerASCII c) :: nat) = of_char CHR ''_''" by simp
    with True of_char_lowerASCII[OF True] show False
      by (simp add: isUpper_def in_range_def)
  qed
next
  case False
  with assms show ?thesis by (simp add: lowerASCII_def)
qed

lemma lowerASCII_bucketChar:
  "identChar c \<or> c = CHR ''-'' \<or> c = CHR ''.'' \<Longrightarrow> c \<noteq> CHR ''_'' \<Longrightarrow>
   bucketChar (lowerASCII c)"
  by (auto simp add: lowerASCII_def isUpper_def in_range_def bucketChar_def identChar_def)

lemma bucket_alphabet_ASCII: "identChar c \<or> c = CHR ''-'' \<or> c = CHR ''.'' \<Longrightarrow> isASCII c"
  by (auto simp add: isASCII_def in_range_def identChar_def)

lemma ToLower_ASCII: "list_all isASCII s \<Longrightarrow> ToLower lower s = map lowerASCII s"
  by (simp add: ToLower_def)

lemma bucketName_ASCII:
  assumes "list_all isASCII i"
  shows "bucketName lower b i =
           take 63 (''cf-'' @ map (\<lambda>c. lowerASCII (if c = CHR ''_'' then CHR ''-'' else c)) i)"
proof -
  have "list_all isASCII (ReplaceAll i CHR ''_'' ''-'')"
    using assms by (auto simp: ReplaceAll_one list_all_iff isASCII_def)
  then show ?thesis
    by (simp add: bucketName_take ToLower_ASCII ReplaceAll_one comp_def)
qed

lemma bucketName_alphabet:
  assumes "list_all (\<lambda>c. identChar c \<or> c = CHR ''-'' \<or> c = CHR ''.'') i"
  shows "list_all bucketChar (bucketName lower b i)"
proof -
  have a: "list_all isASCII i"
    using assms bucket_alphabet_ASCII by (auto simp: list_all_iff)
  have "list_all bucketChar
          (''cf-'' @ map (\<lambda>c. lowerASCII (if c = CHR ''_'' then CHR ''-'' else c)) i)"
    using assms
    by (auto simp: list_all_iff lowerASCII_bucketChar)
       (simp_all add: bucketChar_def in_range_def lowerASCII_def isUpper_def)
  then show ?thesis
    unfolding bucketName_ASCII[OF a] by (rule list_all_take)
qed

lemma identChar_not_dquote: "identChar c \<Longrightarrow> c \<noteq> dquote"
  by (auto simp: identChar_def in_range_def dquote_def)

lemma quoteIdentifier_valid:
  assumes "list_all identChar n"
  shows "quoteIdentifier n = dquote # n @ [dquote]"
proof -
  from assms have "dquote \<notin> set n"
    using identChar_not_dquote by (auto simp: list_all_iff)
  then show ?thesis by (simp add: quoteIdentifier_def ReplaceAll_absent)
qed

lemma identChar_dbName: "list_all identChar (dbName b i)"
  using identifierPattern_dbName[of b i] by (simp add: identifierPattern_def)

lemma identChar_roleName: "list_all identChar (roleName b i)"
  using identifierPattern_roleName[of b i] by (simp add: identifierPattern_def)

lemma byte_high:
  assumes "0 \<le> q" and "k + q < 256" and "0x80 \<le> (k :: int)"
  shows "0x80 \<le> (k + q) mod 256"
proof -
  from assms have "(k + q) mod 256 = k + q" by (intro mod_pos_pos_trivial) linarith+
  with assms show ?thesis by linarith
qed

lemma cont_byte: "0x80 \<le> (0x80 + (a :: int) mod 64) mod 256"
proof -
  have "0 \<le> a mod 64" "a mod 64 < 64" by simp_all
  then show ?thesis by (intro byte_high) linarith+
qed

lemma lead_byte:
  assumes "0 \<le> r" and "r \<le> m" and "k + m div d < 256" and "0 < d" and "0x80 \<le> (k :: int)"
  shows "0x80 \<le> (k + r div d) mod 256"
proof -
  from assms have "0 \<le> r div d" by (simp add: pos_imp_zdiv_nonneg_iff)
  moreover from assms have "r div d \<le> m div d" by (intro zdiv_mono1) simp_all
  ultimately show ?thesis using assms by (intro byte_high) linarith+
qed

lemma EncodeRune_1: "0 \<le> r \<Longrightarrow> r \<le> 0x7F \<Longrightarrow> EncodeRune r = [char_of r]"
  by (simp add: EncodeRune_def)

lemma EncodeRune_2:
  "0x7F < r \<Longrightarrow> r \<le> 0x7FF \<Longrightarrow>
   EncodeRune r = [char_of (0xC0 + r div 64), char_of (0x80 + r mod 64)]"
  by (simp add: EncodeRune_def)

lemma EncodeRune_3:
  "(0x7FF < r \<and> r < 0xD800) \<or> (0xDFFF < r \<and> r \<le> 0xFFFF) \<Longrightarrow>
   EncodeRune r =
     [char_of (0xE0 + r div 4096), char_of (0x80 + (r div 64) mod 64),
      char_of (0x80 + r mod 64)]"
  by (auto simp add: EncodeRune_def)

lemma EncodeRune_4:
  "0xFFFF < r \<Longrightarrow> r \<le> 0x10FFFF \<Longrightarrow>
   EncodeRune r =
     [char_of (0xF0 + r div 262144), char_of (0x80 + (r div 4096) mod 64),
      char_of (0x80 + (r div 64) mod 64), char_of (0x80 + r mod 64)]"
  by (simp add: EncodeRune_def)

lemma EncodeRune_error:
  "r < 0 \<or> 0x10FFFF < r \<or> (0xD800 \<le> r \<and> r \<le> 0xDFFF) \<Longrightarrow>
   EncodeRune r = [CHR 0xEF, CHR 0xBF, CHR 0xBD]"
  by (auto simp add: EncodeRune_def)

lemma ge_cases:
  "v = a \<or> v = b \<Longrightarrow> k \<le> a \<Longrightarrow> k \<le> b \<Longrightarrow> k \<le> (v :: int)"
  "v = a \<or> v = b \<or> v = c \<Longrightarrow> k \<le> a \<Longrightarrow> k \<le> b \<Longrightarrow> k \<le> c \<Longrightarrow> k \<le> (v :: int)"
  "v = a \<or> v = b \<or> v = c \<or> v = d \<Longrightarrow> k \<le> a \<Longrightarrow> k \<le> b \<Longrightarrow> k \<le> c \<Longrightarrow> k \<le> d \<Longrightarrow>
   k \<le> (v :: int)"
  by auto

lemma EncodeRune_high:
  assumes "x \<in> set (EncodeRune r)" and "\<not> (0 \<le> r \<and> r \<le> 0x7F)"
  shows "0x80 \<le> (of_char x :: int)"
proof -
  consider (b) "0x7F < r \<and> r \<le> 0x7FF"
    | (c) "r < 0 \<or> 0x10FFFF < r \<or> (0xD800 \<le> r \<and> r \<le> 0xDFFF)"
    | (d) "(0x7FF < r \<and> r < 0xD800) \<or> (0xDFFF < r \<and> r \<le> 0xFFFF)"
    | (e) "0xFFFF < r \<and> r \<le> 0x10FFFF"
    using assms(2) by linarith
  then show ?thesis
  proof cases
    case b
    then have "EncodeRune r = [char_of (0xC0 + r div 64), char_of (0x80 + r mod 64)]"
      by (intro EncodeRune_2) simp_all
    with assms(1) have "x = char_of (0xC0 + r div 64) \<or> x = char_of (0x80 + r mod 64)"
      by (simp only: list.set insert_iff empty_iff simp_thms)
    then have "(of_char x :: int) = (0xC0 + r div 64) mod 256 \<or>
        (of_char x :: int) = (0x80 + r mod 64) mod 256"
      by (elim disjE) (simp_all only: of_char_of simp_thms)
    moreover from b have "0x80 \<le> (0xC0 + r div 64) mod 256"
      by (intro lead_byte[where m = "0x7FF"]) simp_all
    ultimately show ?thesis using cont_byte[of r] by (rule ge_cases)
  next
    case c
    then have "EncodeRune r = [CHR 0xEF, CHR 0xBF, CHR 0xBD]" by (rule EncodeRune_error)
    with assms(1) have "x = CHR 0xEF \<or> x = CHR 0xBF \<or> x = CHR 0xBD"
      by (simp only: list.set insert_iff empty_iff simp_thms)
    then show ?thesis by (elim disjE) simp_all
  next
    case d
    then have "EncodeRune r =
        [char_of (0xE0 + r div 4096), char_of (0x80 + (r div 64) mod 64),
         char_of (0x80 + r mod 64)]" by (rule EncodeRune_3)
    with assms(1) have "x = char_of (0xE0 + r div 4096) \<or>
        x = char_of (0x80 + (r div 64) mod 64) \<or> x = char_of (0x80 + r mod 64)"
      by (simp only: list.set insert_iff empty_iff simp_thms)
    then have "(of_char x :: int) = (0xE0 + r div 4096) mod 256 \<or>
        (of_char x :: int) = (0x80 + (r div 64) mod 64) mod 256 \<or>
        (of_char x :: int) = (0x80 + r mod 64) mod 256"
      by (elim disjE) (simp_all only: of_char_of simp_thms)
    moreover from d have "0 \<le> r" and "r \<le> 0xFFFF" by linarith+
    then have "0x80 \<le> (0xE0 + r div 4096) mod 256"
      by (intro lead_byte[where m = "0xFFFF"]) simp_all
    ultimately show ?thesis using cont_byte[of "r div 64"] cont_byte[of r] by (rule ge_cases)
  next
    case e
    then have "EncodeRune r =
        [char_of (0xF0 + r div 262144), char_of (0x80 + (r div 4096) mod 64),
         char_of (0x80 + (r div 64) mod 64), char_of (0x80 + r mod 64)]"
      by (intro EncodeRune_4) simp_all
    with assms(1) have "x = char_of (0xF0 + r div 262144) \<or>
        x = char_of (0x80 + (r div 4096) mod 64) \<or>
        x = char_of (0x80 + (r div 64) mod 64) \<or> x = char_of (0x80 + r mod 64)"
      by (simp only: list.set insert_iff empty_iff simp_thms)
    then have "(of_char x :: int) = (0xF0 + r div 262144) mod 256 \<or>
        (of_char x :: int) = (0x80 + (r div 4096) mod 64) mod 256 \<or>
        (of_char x :: int) = (0x80 + (r div 64) mod 64) mod 256 \<or>
        (of_char x :: int) = (0x80 + r mod 64) mod 256"
      by (elim disjE) (simp_all only: of_char_of simp_thms)
    moreover from e have "0x80 \<le> (0xF0 + r div 262144) mod 256"
      by (intro lead_byte[where m = "0x10FFFF"]) simp_all
    ultimately show ?thesis
      using cont_byte[of "r div 4096"] cont_byte[of "r div 64"] cont_byte[of r]
      by (rule ge_cases)
  qed
qed

lemma EncodeRune_ASCII:
  assumes "x \<in> set (EncodeRune r)" and "(of_char x :: int) < 0x80"
  shows "0 \<le> r \<and> r \<le> 0x7F \<and> of_char x = r"
proof (cases "0 \<le> r \<and> r \<le> 0x7F")
  case True
  with assms(1) have "x = char_of r" by (simp add: EncodeRune_1)
  with True have "(of_char x :: int) = r" by simp
  with True show ?thesis by simp
next
  case False
  from EncodeRune_high[OF assms(1) False] assms(2) show ?thesis by linarith
qed

lemma rune_sum: "2 \<le> a \<Longrightarrow> 0 \<le> b \<Longrightarrow> 0x80 \<le> a * 64 + (b :: int)"
  by linarith

lemma rune2_high:
  assumes "0xC2 \<le> s0" and "s0 < 0xE0"
  shows "0x80 \<le> rune2 s0 s1"
proof -
  from assms have "2 \<le> s0 mod 32" by presburger
  moreover have "0 \<le> s1 mod 64" by simp
  ultimately show ?thesis unfolding rune2_def by (rule rune_sum)
qed

lemma rune3_sum:
  "0 \<le> a \<Longrightarrow> 0 \<le> b \<Longrightarrow> 0 \<le> c \<Longrightarrow> 32 \<le> b \<or> 1 \<le> a \<Longrightarrow>
   0x80 \<le> a * 4096 + b * 64 + (c :: int)"
  by linarith

lemma rune4_sum:
  "0 \<le> a \<Longrightarrow> 0 \<le> b \<Longrightarrow> 0 \<le> c \<Longrightarrow> 0 \<le> d \<Longrightarrow> 16 \<le> b \<or> 1 \<le> a \<Longrightarrow>
   0x80 \<le> a * 262144 + b * 4096 + c * 64 + (d :: int)"
  by linarith

lemma rune3_high:
  assumes "(s0 = 0xE0 \<and> 0xA0 \<le> s1 \<and> s1 \<le> 0xBF) \<or> (0xE1 \<le> s0 \<and> s0 \<le> 0xEF)"
  shows "0x80 \<le> rune3 s0 s1 s2"
proof -
  have n: "0 \<le> s0 mod 16" "0 \<le> s1 mod 64" "0 \<le> s2 mod 64" by simp_all
  from assms have "32 \<le> s1 mod 64 \<or> 1 \<le> s0 mod 16" by presburger
  with n show ?thesis unfolding rune3_def by (rule rune3_sum)
qed

lemma rune4_high:
  assumes "(s0 = 0xF0 \<and> 0x90 \<le> s1 \<and> s1 \<le> 0xBF) \<or> (0xF1 \<le> s0 \<and> s0 \<le> 0xF4)"
  shows "0x80 \<le> rune4 s0 s1 s2 s3"
proof -
  have n: "0 \<le> s0 mod 8" "0 \<le> s1 mod 64" "0 \<le> s2 mod 64" "0 \<le> s3 mod 64" by simp_all
  from assms have "16 \<le> s1 mod 64 \<or> 1 \<le> s0 mod 8" by presburger
  with n show ?thesis unfolding rune4_def by (rule rune4_sum)
qed

lemma RuneError_high: "0x80 \<le> RuneError"
  by (simp add: RuneError_def)

lemma DecodeRune_ASCII:
  assumes "DecodeRuneInString (c0 # rest) = (r, w)" and "r < 0x80"
  shows "r = of_char c0"
proof (rule ccontr)
  assume n: "r \<noteq> of_char c0"
  let ?s0 = "of_char c0 :: int"
  let ?s1 = "of_char ((c0 # rest) ! 1) :: int"
  let ?s2 = "of_char ((c0 # rest) ! 2) :: int"
  let ?s3 = "of_char ((c0 # rest) ! 3) :: int"
  from assms(1) n have
    "r = RuneError \<or>
     (r = rune2 ?s0 ?s1 \<and> 0xC2 \<le> ?s0 \<and> ?s0 < 0xE0) \<or>
     (r = rune3 ?s0 ?s1 ?s2 \<and>
        ((?s0 = 0xE0 \<and> 0xA0 \<le> ?s1 \<and> ?s1 \<le> 0xBF) \<or> (0xE1 \<le> ?s0 \<and> ?s0 \<le> 0xEF))) \<or>
     (r = rune4 ?s0 ?s1 ?s2 ?s3 \<and>
        ((?s0 = 0xF0 \<and> 0x90 \<le> ?s1 \<and> ?s1 \<le> 0xBF) \<or> (0xF1 \<le> ?s0 \<and> ?s0 \<le> 0xF4)))"
    by (auto simp add: DecodeRuneInString_def Let_def split: if_splits)
  then have "0x80 \<le> r"
    using RuneError_high rune2_high rune3_high rune4_high by (elim disjE conjE) simp_all
  with assms(2) show False by linarith
qed

lemma runes_Nil: "runes [] = []"
  by (subst runes.simps) simp

lemma runes_Cons:
  "runes (c0 # rest) =
     fst (DecodeRuneInString (c0 # rest)) #
     runes (drop (snd (DecodeRuneInString (c0 # rest))) (c0 # rest))"
  by (subst runes.simps) (simp add: case_prod_beta)

lemma runes_ASCII:
  "c \<in> set (runes s) \<Longrightarrow> c < 0x80 \<Longrightarrow> \<exists>x. x \<in> set s \<and> c = of_char x"
proof (induction s rule: runes.induct)
  case (1 s)
  show ?case
  proof (cases s)
    case Nil
    with "1.prems" show ?thesis by (simp add: runes_Nil)
  next
    case (Cons c0 rest)
    obtain r w where d: "DecodeRuneInString (c0 # rest) = (r, w)"
      by (cases "DecodeRuneInString (c0 # rest)")
    from "1.prems"(1) Cons d have "c = r \<or> c \<in> set (runes (drop w (c0 # rest)))"
      by (simp add: runes_Cons)
    then show ?thesis
    proof
      assume "c = r"
      with d "1.prems"(2) have "c = of_char c0" using DecodeRune_ASCII by blast
      with Cons show ?thesis by auto
    next
      assume "c \<in> set (runes (drop w (c0 # rest)))"
      with "1.IH"[of r w] Cons d "1.prems"(2)
      obtain x where "x \<in> set (drop w (c0 # rest))" and "c = of_char x" by auto
      with Cons show ?thesis using in_set_dropD by fastforce
    qed
  qed
qed

lemma of_char_int_nat: "(of_char y :: int) = int (of_char y)"
  by (simp add: of_nat_of_char)

lemma unicode_ToLower_ASCII:
  assumes "c \<le> 0x7F"
  shows "\<not> (0x41 \<le> unicode_ToLower tbl c \<and> unicode_ToLower tbl c \<le> 0x5A)"
    and "unicode_ToLower tbl c = 0x5F \<Longrightarrow> c = 0x5F"
proof -
  show "\<not> (0x41 \<le> unicode_ToLower tbl c \<and> unicode_ToLower tbl c \<le> 0x5A)"
  proof (cases "0x41 \<le> c \<and> c \<le> 0x5A")
    case True
    with assms have "unicode_ToLower tbl c = c + 32" by (simp add: unicode_ToLower_def)
    with True show ?thesis by linarith
  next
    case False
    with assms have "unicode_ToLower tbl c = c" by (simp add: unicode_ToLower_def)
    with False show ?thesis by simp
  qed
  show "c = 0x5F" if "unicode_ToLower tbl c = 0x5F"
  proof (cases "0x41 \<le> c \<and> c \<le> 0x5A")
    case True
    with assms have "unicode_ToLower tbl c = c + 32" by (simp add: unicode_ToLower_def)
    with True that show ?thesis by linarith
  next
    case False
    with assms have "unicode_ToLower tbl c = c" by (simp add: unicode_ToLower_def)
    with that show ?thesis by simp
  qed
qed

lemma unicode_ToLower_table: "0x7F < c \<Longrightarrow> unicode_ToLower tbl c = tbl c"
  by (simp add: unicode_ToLower_def)

lemma strings_Map_member:
  assumes "y \<in> set (strings_Map mapping s)"
  shows "\<exists>c. c \<in> set (runes s) \<and> 0 \<le> mapping c \<and> y \<in> set (EncodeRune (mapping c))"
proof -
  from assms obtain c where c: "c \<in> set (runes s)"
    and m: "y \<in> set (let r = mapping c in if 0 \<le> r then EncodeRune r else [])"
    unfolding strings_Map_def set_concat set_map by blast
  from m have "0 \<le> mapping c \<and> y \<in> set (EncodeRune (mapping c))"
    by (cases "0 \<le> mapping c") (simp_all add: Let_def)
  with c show ?thesis by blast
qed

lemma strings_Map_lower:
  assumes tbl: "\<And>r. 0x7F < r \<Longrightarrow> \<not> (0x41 \<le> tbl r \<and> tbl r \<le> 0x5A) \<and> tbl r \<noteq> 0x5F"
    and y: "y \<in> set (strings_Map (unicode_ToLower tbl) s)"
  shows "\<not> isUpper y \<and> (y = CHR ''_'' \<longrightarrow> CHR ''_'' \<in> set s)"
proof -
  from strings_Map_member[OF y] obtain c where c: "c \<in> set (runes s)"
    and e: "y \<in> set (EncodeRune (unicode_ToLower tbl c))"
    by blast
  define r where "r = unicode_ToLower tbl c"
  have u: "\<not> (0x41 \<le> r \<and> r \<le> 0x5A)" and v: "r = 0x5F \<Longrightarrow> c = 0x5F"
  proof -
    show "\<not> (0x41 \<le> r \<and> r \<le> 0x5A)"
    proof (cases "c \<le> 0x7F")
      case True
      then show ?thesis unfolding r_def by (rule unicode_ToLower_ASCII(1))
    next
      case False
      then have g: "0x7F < c" by simp
      from tbl[OF g] show ?thesis unfolding r_def unicode_ToLower_table[OF g] by simp
    qed
    show "c = 0x5F" if "r = 0x5F"
    proof (cases "c \<le> 0x7F")
      case True
      from True that[unfolded r_def] show ?thesis by (rule unicode_ToLower_ASCII(2))
    next
      case False
      then have g: "0x7F < c" by simp
      from tbl[OF g] that show ?thesis unfolding r_def unicode_ToLower_table[OF g] by simp
    qed
  qed
  show ?thesis
  proof (cases "(of_char y :: int) < 0x80")
    case False
    then have h: "\<not> (of_char y :: nat) < 0x80" by (simp add: of_char_int_nat)
    then have "\<not> isUpper y" by (simp add: isUpper_def in_range_def)
    moreover from h have "y \<noteq> CHR ''_''" by auto
    ultimately show ?thesis by simp
  next
    case True
    from EncodeRune_ASCII[OF e True] have ry: "(of_char y :: int) = r" by (simp add: r_def)
    have "\<not> isUpper y"
    proof
      assume "isUpper y"
      then have "0x41 \<le> (of_char y :: nat) \<and> (of_char y :: nat) \<le> 0x5A"
        by (simp add: isUpper_def in_range_def)
      then have "0x41 \<le> (of_char y :: int) \<and> (of_char y :: int) \<le> 0x5A"
        unfolding of_char_int_nat by linarith
      with ry u show False by simp
    qed
    moreover have "CHR ''_'' \<in> set s" if "y = CHR ''_''"
    proof -
      have "(of_char CHR ''_'' :: int) = 0x5F" by simp
      with that ry have "r = 0x5F" by simp
      then have c5: "c = 0x5F" by (rule v)
      then have "c < 0x80" by simp
      from runes_ASCII[OF c this] obtain x where x: "x \<in> set s" and "c = of_char x" by blast
      with c5 have "(of_char x :: int) = of_char CHR ''_''" by simp
      then have "x = CHR ''_''" by (rule of_char_eqI)
      with x show ?thesis by simp
    qed
    ultimately show ?thesis by blast
  qed
qed

lemma ToLower_strings:
  assumes tbl: "\<And>r. 0x7F < r \<Longrightarrow> \<not> (0x41 \<le> tbl r \<and> tbl r \<le> 0x5A) \<and> tbl r \<noteq> 0x5F"
    and "CHR ''_'' \<notin> set s"
  shows "list_all (\<lambda>c. \<not> isUpper c \<and> c \<noteq> CHR ''_'')
           (ToLower (strings_Map (unicode_ToLower tbl)) s)"
proof (cases "list_all isASCII s")
  case True
  have "\<not> isUpper (lowerASCII c) \<and> lowerASCII c \<noteq> CHR ''_''" if "c \<in> set s" for c
  proof -
    from that assms(2) have "c \<noteq> CHR ''_''" by auto
    then show ?thesis by (simp add: lowerASCII_not_upper lowerASCII_not_underscore)
  qed
  with True show ?thesis
    by (simp add: ToLower_ASCII list_all_iff)
next
  case False
  then have "ToLower (strings_Map (unicode_ToLower tbl)) s = strings_Map (unicode_ToLower tbl) s"
    by (simp add: ToLower_def)
  with strings_Map_lower[of tbl _ s, OF tbl] assms(2) show ?thesis
    by (auto simp add: list_all_iff)
qed

lemma bucketName_lower:
  assumes tbl: "\<And>r. 0x7F < r \<Longrightarrow> \<not> (0x41 \<le> tbl r \<and> tbl r \<le> 0x5A) \<and> tbl r \<noteq> 0x5F"
  shows "list_all (\<lambda>c. \<not> isUpper c \<and> c \<noteq> CHR ''_'')
           (bucketName (strings_Map (unicode_ToLower tbl)) b i)"
proof -
  have "CHR ''_'' \<notin> set (ReplaceAll i CHR ''_'' ''-'')"
    by (auto simp add: ReplaceAll_one)
  from ToLower_strings[of tbl, OF tbl this]
  have "list_all (\<lambda>c. \<not> isUpper c \<and> c \<noteq> CHR ''_'')
          (''cf-'' @ ToLower (strings_Map (unicode_ToLower tbl)) (ReplaceAll i CHR ''_'' ''-''))"
    by (simp add: isUpper_def in_range_def)
  then show ?thesis unfolding bucketName_take by (rule list_all_take)
qed


lemma case_excerpt_ok:
  "0x7F < r \<Longrightarrow> \<not> (0x41 \<le> case_excerpt r \<and> case_excerpt r \<le> 0x5A) \<and> case_excerpt r \<noteq> 0x5F"
  by (auto simp add: case_excerpt_def)

text \<open>
  Claim C2, as the code has it. The bucket name of an InstanceID is the first 63 bytes of
  \<open>cf-\<close> followed by \<open>strings.ToLower\<close> of the ID with a hyphen for every underscore: for
  every InstanceID it has at most 63 bytes and keeps the prefix, and it holds no
  upper-case ASCII letter and no underscore, the case table of the Go runtime being a
  parameter that maps no rune outside ASCII to \<open>A\<close>..\<open>Z\<close> or to the underscore. It lies
  inside the bucket alphabet whenever the InstanceID consists of ASCII letters, digits,
  underscores, hyphens and dots. For every InstanceID and BindingID the SQL database and
  role names match \<open>^[a-zA-Z0-9_]+$\<close>; their length is not bounded: an ID that consists of
  characters of \<open>[a-zA-Z0-9_]\<close> is kept whole behind \<open>cf_\<close>.
\<close>

theorem derived_names_amended:
  "length (bucketName (strings_Map (unicode_ToLower caseTable)) b i) \<le> 63 \<and>
   take 3 (bucketName (strings_Map (unicode_ToLower caseTable)) b i) = ''cf-'' \<and>
   bucketName (strings_Map (unicode_ToLower caseTable)) b i =
     take 63 (''cf-'' @
       ToLower (strings_Map (unicode_ToLower caseTable)) (ReplaceAll i CHR ''_'' ''-'')) \<and>
   ((\<forall>r. 0x7F < r \<longrightarrow>
         \<not> (0x41 \<le> caseTable r \<and> caseTable r \<le> 0x5A) \<and> caseTable r \<noteq> 0x5F) \<longrightarrow>
      list_all (\<lambda>c. \<not> isUpper c \<and> c \<noteq> CHR ''_'')
        (bucketName (strings_Map (unicode_ToLower caseTable)) b i)) \<and>
   (list_all (\<lambda>c. identChar c \<or> c = CHR ''-'' \<or> c = CHR ''.'') i \<longrightarrow>
      list_all bucketChar (bucketName (strings_Map (unicode_ToLower caseTable)) b i)) \<and>
   identifierPattern (dbName pb i) \<and> identifierPattern (roleName pb i) \<and>
   (list_all identChar i \<longrightarrow> dbName pb i = ''cf_'' @ i \<and> roleName pb i = ''cf_'' @ i)"
proof -
  let ?lower = "strings_Map (unicode_ToLower caseTable)"
  have l: "(\<forall>r. 0x7F < r \<longrightarrow>
         \<not> (0x41 \<le> caseTable r \<and> caseTable r \<le> 0x5A) \<and> caseTable r \<noteq> 0x5F) \<longrightarrow>
      list_all (\<lambda>c. \<not> isUpper c \<and> c \<noteq> CHR ''_'') (bucketName ?lower b i)"
    using bucketName_lower[of caseTable b i] by blast
  from l length_bucketName[of ?lower b i] bucketName_prefix[of ?lower b i]
    bucketName_take[of ?lower b i]
    bucketName_alphabet[of i ?lower b] identifierPattern_dbName[of pb i]
    identifierPattern_roleName[of pb i] sanitize_identity[of i]
  show ?thesis by (simp add: dbName_def roleName_def)
qed

text \<open>
  Witness for C2: the excerpt of the case table satisfies the hypothesis on the table;
  the ID \<open>\<acute>E_A\<close> with a two-byte capital (bytes C3 89) gives \<open>cf-\<close>, the bytes C3 A9 and
  \<open>-a\<close>. The ID \<open>My_App-1.x\<close> satisfies the hypothesis on the bucket alphabet and gives
  \<open>cf-my-app-1.x\<close>; the ID \<open>My_App1\<close> satisfies the one on SQL names and gives \<open>cf_My_App1\<close>.
\<close>

theorem derived_names_amended_witness:
  "bucketName (strings_Map (unicode_ToLower case_excerpt)) minio_broker0
     [CHR 0xC3, CHR 0x89, CHR ''_'', CHR ''A''] = [CHR ''c'', CHR ''f'', CHR ''-'', CHR 0xC3, CHR 0xA9, CHR ''-'', CHR ''a''] \<and>
   list_all (\<lambda>c. \<not> isUpper c \<and> c \<noteq> CHR ''_'')
     (bucketName (strings_Map (unicode_ToLower case_excerpt)) minio_broker0
        [CHR 0xC3, CHR 0x89, CHR ''_'', CHR ''A'']) \<and>
   length (bucketName (strings_Map (unicode_ToLower case_excerpt)) minio_broker0
        ''My_App-1.x'') \<le> 63 \<and>
   bucketName (strings_Map (unicode_ToLower case_excerpt)) minio_broker0 ''My_App-1.x'' =
     ''cf-my-app-1.x'' \<and>
   list_all (\<lambda>c. identChar c \<or> c = CHR ''-'' \<or> c = CHR ''.'') ''My_App-1.x'' \<and>
   list_all bucketChar
     (bucketName (strings_Map (unicode_ToLower case_excerpt)) minio_broker0 ''My_App-1.x'') \<and>
   list_all identChar ''My_App1'' \<and> dbName postgres_broker0 ''My_App1'' = ''cf_My_App1''"
proof -
  have h: "\<forall>r. 0x7F < r \<longrightarrow>
      \<not> (0x41 \<le> case_excerpt r \<and> case_excerpt r \<le> 0x5A) \<and> case_excerpt r \<noteq> 0x5F"
    using case_excerpt_ok by blast
  have c: "list_all (\<lambda>c. identChar c \<or> c = CHR ''-'' \<or> c = CHR ''.'') ''My_App-1.x''"
    by (simp add: identChar_def in_range_def)
  have d: "list_all identChar ''My_App1''" by (simp add: identChar_def in_range_def)
  have e: "bucketName (strings_Map (unicode_ToLower case_excerpt)) minio_broker0
      ''My_App-1.x'' = ''cf-my-app-1.x''"
    by code_simp
  have f: "bucketName (strings_Map (unicode_ToLower case_excerpt)) minio_broker0
     [CHR 0xC3, CHR 0x89, CHR ''_'', CHR ''A''] = [CHR ''c'', CHR ''f'', CHR ''-'', CHR 0xC3, CHR 0xA9, CHR ''-'', CHR ''a'']"
    by code_simp
  note t0 = derived_names_amended[where caseTable = case_excerpt and b = minio_broker0
      and i = "[CHR 0xC3, CHR 0x89, CHR ''_'', CHR ''A'']" and pb = postgres_broker0]
  note t1 = derived_names_amended[where caseTable = case_excerpt and b = minio_broker0
      and i = "''My_App-1.x''" and pb = postgres_broker0]
  note t2 = derived_names_amended[where caseTable = case_excerpt and b = minio_broker0
      and i = "''My_App1''" and pb = postgres_broker0]
  have u: "list_all (\<lambda>c. \<not> isUpper c \<and> c \<noteq> CHR ''_'')
     (bucketName (strings_Map (unicode_ToLower case_excerpt)) minio_broker0
        [CHR 0xC3, CHR 0x89, CHR ''_'', CHR ''A''])"
    using t0 h by blast
  have l: "length (bucketName (strings_Map (unicode_ToLower case_excerpt)) minio_broker0
        ''My_App-1.x'') \<le> 63"
    using t1 by blast
  have k: "list_all bucketChar
     (bucketName (strings_Map (unicode_ToLower case_excerpt)) minio_broker0 ''My_App-1.x'')"
    using t1 c by blast
  have n: "dbName postgres_broker0 ''My_App1'' = ''cf_My_App1''"
    using t2 d by simp
  from f u l e c k d n show ?thesis by blast
qed

text \<open>
  Counterexample to C2 as stated: the ID \<open>a b\<close> gives the bucket name \<open>cf-a b\<close>, whose
  space is outside the bucket alphabet; an ID of 64 letters gives a database name of 67
  bytes, beyond the 63 bytes PostgreSQL keeps of an identifier.
\<close>

theorem derived_names_counterexample:
  "bucketName (strings_Map (unicode_ToLower case_excerpt)) minio_broker0 ''a b'' = ''cf-a b'' \<and>
   \<not> list_all bucketChar
        (bucketName (strings_Map (unicode_ToLower case_excerpt)) minio_broker0 ''a b'') \<and>
   length (dbName postgres_broker0 (replicate 64 CHR ''a'')) = 67"
proof -
  have e: "bucketName (strings_Map (unicode_ToLower case_excerpt)) minio_broker0 ''a b'' =
      ''cf-a b''"
    by code_simp
  have n: "\<not> list_all bucketChar ''cf-a b''"
    by (simp add: bucketChar_def in_range_def)
  have "list_all identChar (replicate 64 CHR ''a'')"
    by (simp add: list_all_iff identChar_def in_range_def)
  then have "dbName postgres_broker0 (replicate 64 CHR ''a'') = ''cf_'' @ replicate 64 CHR ''a''"
    by (simp add: dbName_def sanitize_identity)
  then have l: "length (dbName postgres_broker0 (replicate 64 CHR ''a'')) = 67" by simp
  from e n l show ?thesis by simp
qed

text \<open>
  Claim C9. For every InstanceID and BindingID, the empty string and strings of
  disallowed characters included, \<open>validateIdentifier\<close> accepts \<open>dbName(instanceID)\<close> and
  \<open>roleName(bindingID)\<close>; so, whatever the engine answers, none of \<open>Provision\<close>,
  \<open>Deprovision\<close>, \<open>Bind\<close> and \<open>Unbind\<close> of the relational broker returns the
  \<open>invalid identifier\<close> error.
\<close>

theorem invalid_identifier_unreachable:
  "validateIdentifier (dbName b instanceID) = None \<and>
   validateIdentifier (roleName b bindingID) = None \<and>
   snd (fst (postgres_Provision sys b instanceID st)) \<noteq>
     Some (Errorf ''invalid identifier: %s'' args) \<and>
   snd (fst (postgres_Deprovision sys b instanceID st)) \<noteq>
     Some (Errorf ''invalid identifier: %s'' args) \<and>
   postgres_Bind sys b instanceID bindingID st \<noteq>
     Return ((v, Some (Errorf ''invalid identifier: %s'' args)), st') \<and>
   snd (fst (postgres_Unbind sys b instanceID bindingID st)) \<noteq>
     Some (Errorf ''invalid identifier: %s'' args)"
proof -
  have p: "snd (fst (postgres_Provision sys b instanceID st)) \<noteq>
             Some (Errorf ''invalid identifier: %s'' args)"
    by (simp add: postgres_Provision_def validate_dbName Let_def
        split: option.split prod.split)
  have d: "snd (fst (postgres_Deprovision sys b instanceID st)) \<noteq>
             Some (Errorf ''invalid identifier: %s'' args)"
    by (simp add: postgres_Deprovision_def validate_dbName Let_def
        split: option.split prod.split)
  have u: "snd (fst (postgres_Unbind sys b instanceID bindingID st)) \<noteq>
             Some (Errorf ''invalid identifier: %s'' args)"
    by (simp add: postgres_Unbind_def validate_dbName validate_roleName Let_def
        split: option.split prod.split)
  have g: "generatePassword (postgres_rand sys) 16 (pg_entropy st) \<noteq>
             Return ((x, Some (Errorf ''invalid identifier: %s'' args)), r)" for x r
    by (simp add: generatePassword_def Let_def split: option.split prod.split)
  have bi: "postgres_Bind sys b instanceID bindingID st \<noteq>
              Return ((v, Some (Errorf ''invalid identifier: %s'' args)), st')"
    using g
    by (auto simp add: postgres_Bind_def validate_dbName validate_roleName Let_def
        split: option.split prod.split outcome.split)
  show ?thesis using p d u bi validate_dbName validate_roleName by simp
qed

lemma bucketName_canonical:
  assumes "list_all (\<lambda>c. isASCII c \<and> \<not> isUpper c \<and> c \<noteq> CHR ''_'') i" and "length i \<le> 60"
  shows "bucketName lower b i = ''cf-'' @ i"
proof -
  from assms(1) have a: "list_all isASCII i" by (auto simp: list_all_iff)
  from assms(1) have "map (\<lambda>c. lowerASCII (if c = CHR ''_'' then CHR ''-'' else c)) i = i"
    by (induction i) (auto simp: lowerASCII_def)
  with assms(2) show ?thesis by (simp add: bucketName_ASCII[OF a])
qed

text \<open>
  Claim C5, as the code has it. The derived name is a function of the InstanceID alone: it
  does not depend on the broker's configuration, and no state is read. It is not
  injective; distinct IDs get distinct names when both are ASCII without upper-case
  letters and underscores and of at most 60 bytes (bucket names), or when both consist of
  \<open>[a-zA-Z0-9_]\<close> (database names).
\<close>

theorem derived_name_function_amended:
  "bucketName lower b i = bucketName lower b' i \<and> dbName pb i = dbName pb' i \<and>
   (list_all (\<lambda>c. isASCII c \<and> \<not> isUpper c \<and> c \<noteq> CHR ''_'') i \<and> length i \<le> 60 \<and>
    list_all (\<lambda>c. isASCII c \<and> \<not> isUpper c \<and> c \<noteq> CHR ''_'') j \<and> length j \<le> 60 \<and>
    bucketName lower b i = bucketName lower b j \<longrightarrow> i = j) \<and>
   (list_all identChar i \<and> list_all identChar j \<and> dbName pb i = dbName pb j \<longrightarrow> i = j)"
proof -
  have 1: "bucketName lower b i = bucketName lower b' i" by (simp add: bucketName_def)
  have 2: "dbName pb i = dbName pb' i" by (simp add: dbName_def)
  have 3: "list_all (\<lambda>c. isASCII c \<and> \<not> isUpper c \<and> c \<noteq> CHR ''_'') i \<and> length i \<le> 60 \<and>
    list_all (\<lambda>c. isASCII c \<and> \<not> isUpper c \<and> c \<noteq> CHR ''_'') j \<and> length j \<le> 60 \<and>
    bucketName lower b i = bucketName lower b j \<longrightarrow> i = j"
  proof (intro impI, elim conjE)
    assume i: "list_all (\<lambda>c. isASCII c \<and> \<not> isUpper c \<and> c \<noteq> CHR ''_'') i" "length i \<le> 60"
      and j: "list_all (\<lambda>c. isASCII c \<and> \<not> isUpper c \<and> c \<noteq> CHR ''_'') j" "length j \<le> 60"
      and e: "bucketName lower b i = bucketName lower b j"
    from e have "''cf-'' @ i = ''cf-'' @ j"
      by (simp only: bucketName_canonical[OF i] bucketName_canonical[OF j])
    then show "i = j" by simp
  qed
  have 4: "list_all identChar i \<and> list_all identChar j \<and> dbName pb i = dbName pb j \<longrightarrow> i = j"
  proof (intro impI, elim conjE)
    assume i: "list_all identChar i" and j: "list_all identChar j"
      and e: "dbName pb i = dbName pb j"
    from e show "i = j"
      by (simp add: dbName_def sanitize_identity[OF i] sanitize_identity[OF j])
  qed
  from 1 2 3 4 show ?thesis by blast
qed

text \<open>
  Witness for C5: \<open>abc\<close> and \<open>abd\<close> satisfy the hypotheses and get distinct bucket and
  database names.
\<close>

theorem derived_name_function_witness:
  "list_all (\<lambda>c. isASCII c \<and> \<not> isUpper c \<and> c \<noteq> CHR ''_'') ''abc'' \<and> length ''abc'' \<le> 60 \<and>
   list_all (\<lambda>c. isASCII c \<and> \<not> isUpper c \<and> c \<noteq> CHR ''_'') ''abd'' \<and> length ''abd'' \<le> 60 \<and>
   bucketName (mapLower mem_minio) minio_broker0 ''abc'' \<noteq>
     bucketName (mapLower mem_minio) minio_broker0 ''abd'' \<and>
   list_all identChar ''abc'' \<and> list_all identChar ''abd'' \<and>
   dbName postgres_broker0 ''abc'' \<noteq> dbName postgres_broker0 ''abd''"
proof -
  have a: "list_all (\<lambda>c. isASCII c \<and> \<not> isUpper c \<and> c \<noteq> CHR ''_'') ''abc''"
    by (simp add: isASCII_def isUpper_def in_range_def)
  have b: "list_all (\<lambda>c. isASCII c \<and> \<not> isUpper c \<and> c \<noteq> CHR ''_'') ''abd''"
    by (simp add: isASCII_def isUpper_def in_range_def)
  have c: "list_all identChar ''abc''" "list_all identChar ''abd''"
    by (simp_all add: identChar_def in_range_def)
  have l: "length ''abc'' \<le> 60" "length ''abd'' \<le> 60" by simp_all
  have ne: "''abc'' \<noteq> ''abd''" by simp
  note t = derived_name_function_amended[of "mapLower mem_minio" minio_broker0 "''abc''"
      minio_broker0 postgres_broker0 postgres_broker0 "''abd''"]
  have n1: "bucketName (mapLower mem_minio) minio_broker0 ''abc'' \<noteq>
     bucketName (mapLower mem_minio) minio_broker0 ''abd''"
    using t a b l ne by blast
  have n2: "dbName postgres_broker0 ''abc'' \<noteq> dbName postgres_broker0 ''abd''"
    using t c ne by blast
  from a b c l n1 n2 show ?thesis by blast
qed

text \<open>
  Counterexample to C5 as stated: the distinct IDs \<open>a_b\<close> and \<open>a-b\<close> share the bucket
  \<open>cf-a-b\<close> and the database \<open>cf_a_b\<close>.
\<close>

theorem derived_name_function_counterexample:
  "''a_b'' \<noteq> ''a-b'' \<and>
   bucketName (mapLower mem_minio) minio_broker0 ''a_b'' =
     bucketName (mapLower mem_minio) minio_broker0 ''a-b'' \<and>
   dbName postgres_broker0 ''a_b'' = dbName postgres_broker0 ''a-b''"
  by code_simp

section \<open>Unsupported operations\<close>

text \<open>
  Claim C8. In both brokers \<open>GetBinding\<close>, \<open>GetInstance\<close>, \<open>LastOperation\<close> and
  \<open>LastBindingOperation\<close> return the zero value of their result and a fixed failure
  response with status 404 and key \<open>not-found\<close>; \<open>Update\<close> returns the zero value and a
  fixed failure response with status 422 and key \<open>unprocessable\<close>; whatever the arguments.
\<close>

theorem unsupported_operations:
  "minio_GetBinding mb instanceID bindingID fd =
     (GetBindingSpec_zero,
      Some (NewFailureResponse (Errorf ''GetBinding not supported'' []) 404 ''not-found'')) \<and>
   minio_GetInstance mb instanceID fi =
     (GetInstanceDetailsSpec_zero,
      Some (NewFailureResponse (Errorf ''GetInstance not supported'' []) 404 ''not-found'')) \<and>
   minio_LastOperation mb instanceID pd =
     (LastOperation_zero,
      Some (NewFailureResponse (Errorf ''LastOperation not supported'' []) 404 ''not-found'')) \<and>
   minio_LastBindingOperation mb instanceID bindingID pd =
     (LastOperation_zero,
      Some (NewFailureResponse (Errorf ''LastBindingOperation not supported'' []) 404
              ''not-found'')) \<and>
   minio_Update mb instanceID ud asyncAllowed =
     (UpdateServiceSpec_zero,
      Some (NewFailureResponse (Errorf ''Update not supported'' []) 422 ''unprocessable'')) \<and>
   postgres_GetBinding pb instanceID bindingID fd =
     (GetBindingSpec_zero,
      Some (NewFailureResponse (Errorf ''GetBinding not supported'' []) 404 ''not-found'')) \<and>
   postgres_GetInstance pb instanceID fi =
     (GetInstanceDetailsSpec_zero,
      Some (NewFailureResponse (Errorf ''GetInstance not supported'' []) 404 ''not-found'')) \<and>
   postgres_LastOperation pb instanceID pd =
     (LastOperation_zero,
      Some (NewFailureResponse (Errorf ''LastOperation not supported'' []) 404 ''not-found'')) \<and>
   postgres_LastBindingOperation pb instanceID bindingID pd =
     (LastOperation_zero,
      Some (NewFailureResponse (Errorf ''LastBindingOperation not supported'' []) 404
              ''not-found'')) \<and>
   postgres_Update pb instanceID ud asyncAllowed =
     (UpdateServiceSpec_zero,
      Some (NewFailureResponse (Errorf ''Update not supported'' []) 422 ''unprocessable''))"
  by (simp add: minio_GetBinding_def minio_GetInstance_def minio_LastOperation_def
      minio_LastBindingOperation_def minio_Update_def postgres_GetBinding_def
      postgres_GetInstance_def postgres_LastOperation_def postgres_LastBindingOperation_def
      postgres_Update_def)

section \<open>Credential generation\<close>

lemma length_written: "length (written buf data) = length buf"
  by (simp add: written_def)

lemma length_EncodeToString: "length (EncodeToString bs) = 2 * length bs"
  by (induction bs) (simp_all add: EncodeToString_def)

lemma hextable_lowerHex:
  assumes "n < 16"
  shows "lowerHex (hextable ! n)"
proof -
  have "list_all lowerHex hextable"
    by (simp add: hextable_def lowerHex_def in_range_def)
  moreover have "length hextable = 16"
    by (simp add: hextable_def)
  ultimately show ?thesis
    using assms by (simp add: list_all_length)
qed

lemma hi_nibble: "unat (drop_bit 4 (v :: byte)) < 16"
proof -
  have "unat v < 256" using unsigned_less[of v, where 'a=nat] by simp
  then have "unat v div 16 < 16" by arith
  then show ?thesis by (simp add: drop_bit_eq_div unat_div)
qed

lemma lo_nibble: "unat ((v :: byte) AND 0x0f) < 16"
proof -
  have "v AND 0x0f \<le> 0x0f" by (rule word_and_le1)
  then have "unat (v AND 0x0f) \<le> unat (0x0f :: byte)" by (simp only: word_le_nat_alt)
  then show ?thesis by simp
qed

lemma hex_EncodeToString: "list_all lowerHex (EncodeToString bs)"
  by (induction bs) (simp_all add: EncodeToString_def hextable_lowerHex hi_nibble lo_nibble)

lemma generateAccessKey_ok:
  assumes "0 \<le> n" and "snd (fst (read r (nat n))) = None"
  shows "\<exists>s r'. generateAccessKey read n r = Return ((s, None), r') \<and>
           length s = 2 * nat n \<and> list_all lowerHex s"
  using assms
  by (auto simp add: generateAccessKey_def Let_def length_EncodeToString length_written
      hex_EncodeToString split: prod.split option.split)

lemma generatePassword_ok:
  assumes "0 \<le> n" and "snd (fst (read r (nat n))) = None"
  shows "\<exists>s r'. generatePassword read n r = Return ((s, None), r') \<and>
           length s = 2 * nat n \<and> list_all lowerHex s"
  using assms
  by (auto simp add: generatePassword_def Let_def length_EncodeToString length_written
      hex_EncodeToString split: prod.split option.split)

lemma generateAccessKey_cases:
  assumes "0 \<le> n"
  shows "(\<exists>e r'. generateAccessKey read n r = Return (([], Some e), r')) \<or>
         (\<exists>s r'. generateAccessKey read n r = Return ((s, None), r') \<and>
            length s = 2 * nat n \<and> list_all lowerHex s)"
  using assms
  by (auto simp add: generateAccessKey_def Let_def length_EncodeToString length_written
      hex_EncodeToString split: prod.split option.split)

lemma generatePassword_cases:
  assumes "0 \<le> n"
  shows "(\<exists>e r'. generatePassword read n r = Return (([], Some e), r')) \<or>
         (\<exists>s r'. generatePassword read n r = Return ((s, None), r') \<and>
            length s = 2 * nat n \<and> list_all lowerHex s)"
  using assms
  by (auto simp add: generatePassword_def Let_def length_EncodeToString length_written
      hex_EncodeToString split: prod.split option.split)

lemma minio_Bind_no_panic: "minio_Bind sys b i bid st \<noteq> Panic p"
proof -
  have z10: "(0::int) \<le> 10" and z20: "(0::int) \<le> 20" by simp_all
  note k1 = generateAccessKey_cases[OF z10, of "minio_rand sys" "entropy st"]
  show ?thesis
  proof (cases "newClient sys b")
    case (Some e)
    then show ?thesis by (simp add: minio_Bind_def Let_def)
  next
    case None
    show ?thesis
    proof (cases "BucketExists sys (store st) (bucketName (mapLower sys) b i)")
      case (Pair ex err)
      show ?thesis
      proof (cases "err = None \<and> ex")
        case False
        with None Pair show ?thesis
          by (auto simp add: minio_Bind_def Let_def split: option.split)
      next
        case True
        from k1 show ?thesis
        proof
          assume "\<exists>e r'. generateAccessKey (minio_rand sys) 10 (entropy st) = Return (([], Some e), r')"
          with None Pair True show ?thesis by (auto simp add: minio_Bind_def Let_def)
        next
          assume "\<exists>s r'. generateAccessKey (minio_rand sys) 10 (entropy st) = Return ((s, None), r') \<and>
            length s = 2 * nat 10 \<and> list_all lowerHex s"
          then obtain s r' where s: "generateAccessKey (minio_rand sys) 10 (entropy st) = Return ((s, None), r')"
            "length s = 20" by auto
          from generateAccessKey_cases[OF z20, of "minio_rand sys" r'] show ?thesis
          proof
            assume "\<exists>e r''. generateAccessKey (minio_rand sys) 20 r' = Return (([], Some e), r'')"
            with None Pair True s show ?thesis by (auto simp add: minio_Bind_def Let_def)
          next
            assume "\<exists>s2 r''. generateAccessKey (minio_rand sys) 20 r' = Return ((s2, None), r'') \<and>
              length s2 = 2 * nat 20 \<and> list_all lowerHex s2"
            with None Pair True s show ?thesis by (auto simp add: minio_Bind_def Let_def)
          qed
        qed
      qed
    qed
  qed
qed

lemma minio_Bind_key_lengths:
  assumes "minio_Bind sys b i bid st = Return ((bnd, None), st')"
  shows "\<exists>m ak sk. Credentials bnd = Some m \<and> m ''access_key'' = Some (String ak) \<and>
           length ak = 20 \<and> m ''secret_key'' = Some (String sk) \<and> length sk = 40"
proof -
  let ?bucket = "bucketName (mapLower sys) b i"
  from assms have nc: "newClient sys b = None"
    by (auto simp add: minio_Bind_def Let_def split: option.splits)
  from assms nc have be: "BucketExists sys (store st) ?bucket = (True, None)"
    by (auto simp add: minio_Bind_def Let_def split: option.splits prod.splits if_splits)
  from assms nc be obtain ak r1 where
    k1: "generateAccessKey (minio_rand sys) 10 (entropy st) = Return ((ak, None), r1)"
    by (auto simp add: minio_Bind_def Let_def split: option.splits prod.splits outcome.splits)
  from assms nc be k1 obtain sk r2 where
    k2: "generateAccessKey (minio_rand sys) 20 r1 = Return ((sk, None), r2)"
    by (auto simp add: minio_Bind_def Let_def split: option.splits prod.splits outcome.splits)
  have z10: "(0::int) \<le> 10" and z20: "(0::int) \<le> 20" by simp_all
  from generateAccessKey_cases[OF z10, of "minio_rand sys" "entropy st"] k1
  have l1: "length ak = 20" by auto
  from generateAccessKey_cases[OF z20, of "minio_rand sys" r1] k2
  have l2: "length sk = 40" by auto
  from assms nc be k1 k2 l1 l2 show ?thesis
    by (auto simp add: minio_Bind_def Let_def split: if_splits)
qed

text \<open>
  Claim C10. For a byte length \<open>n \<ge> 0\<close> and a random source that reports no error,
  \<open>generateAccessKey(n)\<close> and \<open>generatePassword(n)\<close> return \<open>2 * n\<close> lower-case hexadecimal
  characters. \<open>Bind\<close> of the object-storage broker never panics, and the credentials it
  returns hold an access key of 20 and a secret key of 40 characters, so the slice
  \<open>bindAccessKey[:8]\<close> is in bounds.
\<close>

theorem generated_keys_hex:
  "(0 \<le> n \<and> snd (fst (read r (nat n))) = None \<longrightarrow>
      (\<exists>s r'. generateAccessKey read n r = Return ((s, None), r') \<and>
         length s = 2 * nat n \<and> list_all lowerHex s) \<and>
      (\<exists>s r'. generatePassword read n r = Return ((s, None), r') \<and>
         length s = 2 * nat n \<and> list_all lowerHex s)) \<and>
   minio_Bind sys b instanceID bindingID st \<noteq> Panic p \<and>
   (minio_Bind sys b instanceID bindingID st = Return ((bnd, None), st') \<longrightarrow>
      (\<exists>m ak sk. Credentials bnd = Some m \<and>
         m ''access_key'' = Some (String ak) \<and> length ak = 20 \<and>
         m ''secret_key'' = Some (String sk) \<and> length sk = 40))"
  using generateAccessKey_ok[of n read r] generatePassword_ok[of n read r]
    minio_Bind_no_panic[of sys b instanceID bindingID st p]
    minio_Bind_key_lengths[of sys b instanceID bindingID st bnd st']
  by blast

lemma sample_newClient: "newClient mem_minio minio_broker0 = None"
  by (simp add: newClient_def mem_minio_def)

lemma sample_bucket: "bucketName (mapLower mem_minio) minio_broker0 ''abc'' = ''cf-abc''"
  by code_simp

lemma sample_key1:
  "generateAccessKey (minio_rand mem_minio) 10 (replicate 30 0xa7) =
     Return ((''a7a7a7a7a7a7a7a7a7a7'', None), replicate 20 0xa7)"
  by code_simp

lemma sample_key2:
  "generateAccessKey (minio_rand mem_minio) 20 (replicate 20 0xa7) =
     Return ((''a7a7a7a7a7a7a7a7a7a7a7a7a7a7a7a7a7a7a7a7'', None), [])"
  by code_simp

lemma sample_Bind:
  "\<exists>bnd st'. minio_Bind mem_minio minio_broker0 ''abc'' ''b1''
       (minio_state0 [(''cf-abc'', 0)] (replicate 30 0xa7)) = Return ((bnd, None), st')"
proof -
  have be: "BucketExists mem_minio [(''cf-abc'', 0)] ''cf-abc'' = (True, None)"
    by (simp add: mem_minio_def mem_BucketExists_def)
  show ?thesis
    by (simp add: minio_Bind_def Let_def sample_newClient sample_bucket minio_state0_def be
        sample_key1 sample_key2)
qed

text \<open>
  Witness for C10: length 10 on a source holding 30 bytes, and a \<open>Bind\<close> on an existing
  bucket with the same source.
\<close>

theorem generated_keys_hex_witness:
  "(0::int) \<le> 10 \<and> snd (fst (mem_rand (replicate 30 0xa7) (nat 10))) = None \<and>
   (\<exists>s r'. generateAccessKey mem_rand 10 (replicate 30 0xa7) = Return ((s, None), r') \<and>
      length s = 20 \<and> list_all lowerHex s) \<and>
   (\<exists>bnd st'. minio_Bind mem_minio minio_broker0 ''abc'' ''b1''
        (minio_state0 [(''cf-abc'', 0)] (replicate 30 0xa7)) = Return ((bnd, None), st') \<and>
      (\<exists>m ak sk. Credentials bnd = Some m \<and>
         m ''access_key'' = Some (String ak) \<and> length ak = 20 \<and>
         m ''secret_key'' = Some (String sk) \<and> length sk = 40))"
proof -
  have h1: "(0::int) \<le> 10" by simp
  have h2: "snd (fst (mem_rand (replicate 30 0xa7) (nat 10))) = None"
    by (simp add: mem_rand_def)
  obtain bnd st' where h3: "minio_Bind mem_minio minio_broker0 ''abc'' ''b1''
        (minio_state0 [(''cf-abc'', 0)] (replicate 30 0xa7)) = Return ((bnd, None), st')"
    using sample_Bind by blast
  note t = generated_keys_hex[of 10 mem_rand "replicate 30 0xa7" mem_minio minio_broker0
      "''abc''" "''b1''" "minio_state0 [(''cf-abc'', 0)] (replicate 30 0xa7)" "[]" bnd st']
  have c1: "\<exists>s r'. generateAccessKey mem_rand 10 (replicate 30 0xa7) = Return ((s, None), r') \<and>
      length s = 20 \<and> list_all lowerHex s"
    using t h1 h2 by simp
  have c2: "\<exists>m ak sk. Credentials bnd = Some m \<and>
         m ''access_key'' = Some (String ak) \<and> length ak = 20 \<and>
         m ''secret_key'' = Some (String sk) \<and> length sk = 40"
    using t h3 by blast
  from h1 h2 c1 h3 c2 show ?thesis by blast
qed

section \<open>Lifecycle of the relational and the object-storage broker\<close>

subsection \<open>Runs on the in-memory engines\<close>

lemma sample_connect: "connectAdmin mem_postgres postgres_broker0 = None"
  by (simp add: connectAdmin_def mem_postgres_def)

lemma sample_connect_down: "connectAdmin down_postgres postgres_broker0 = None"
  by (simp add: connectAdmin_def down_postgres_def)

lemma sample_revoke:
  "db_Exec mem_postgres (engine (postgres_state0 [] [''cf_b1''] []))
      (''REVOKE ALL PRIVILEGES ON DATABASE '' @ quoteIdentifier (dbName postgres_broker0 ''abc'') @
       '' FROM '' @ quoteIdentifier (roleName postgres_broker0 ''b1'')) [] =
     (Some (Upstream ''database does not exist''), \<lparr>dbs = [], roles = [''cf_b1'']\<rparr>)"
  by code_simp

lemma sample_drop_role:
  "db_Exec mem_postgres \<lparr>dbs = [], roles = [''cf_b1'']\<rparr>
      (''DROP ROLE IF EXISTS '' @ quoteIdentifier (roleName postgres_broker0 ''b1'')) [] =
     (None, \<lparr>dbs = [], roles = []\<rparr>)"
  by code_simp

lemma sample_down_Exec: "db_Exec down_postgres d q args = (Some (Upstream ''connection refused''), d)"
  by (simp add: down_postgres_def)

lemma sample_absent_bucket:
  "BucketExists mem_minio (store (minio_state0 [] []))
     (bucketName (mapLower mem_minio) minio_broker0 ''abc'') = (False, None)"
  by code_simp

lemma sample_MakeBucket:
  "MakeBucket mem_minio (store (minio_state0 [] []))
     (bucketName (mapLower mem_minio) minio_broker0 ''abc'') = (None, [(''cf-abc'', 0)])"
  by code_simp

lemma sample_present_bucket:
  "BucketExists mem_minio [(''cf-abc'', 0)]
     (bucketName (mapLower mem_minio) minio_broker0 ''abc'') = (True, None)"
  by code_simp

lemma sample_absent_database:
  "QueryRow_Scan mem_postgres (engine (postgres_state0 [] [] []))
     ''SELECT EXISTS(SELECT 1 FROM pg_database WHERE datname = $1)''
     [dbName postgres_broker0 ''abc''] = (False, None)"
  by code_simp

lemma sample_create_database:
  "db_Exec mem_postgres (engine (postgres_state0 [] [] []))
     (''CREATE DATABASE '' @ quoteIdentifier (dbName postgres_broker0 ''abc'')) [] =
     (None, \<lparr>dbs = [''cf_abc''], roles = []\<rparr>)"
  by code_simp

lemma sample_present_database:
  "QueryRow_Scan mem_postgres \<lparr>dbs = [''cf_abc''], roles = []\<rparr>
     ''SELECT EXISTS(SELECT 1 FROM pg_database WHERE datname = $1)''
     [dbName postgres_broker0 ''abc''] = (True, None)"
  by code_simp

lemma sample_password:
  "generatePassword (postgres_rand mem_postgres) 16 (replicate 16 0xa7) =
     Return ((''a7a7a7a7a7a7a7a7a7a7a7a7a7a7a7a7'', None), [])"
  by code_simp

lemma sample_create_role:
  "db_Exec mem_postgres \<lparr>dbs = [], roles = []\<rparr>
      (''CREATE ROLE '' @ quoteIdentifier (roleName postgres_broker0 ''b1'') @
       '' WITH LOGIN PASSWORD '' @ quoteLiteral ''a7a7a7a7a7a7a7a7a7a7a7a7a7a7a7a7'') [] =
     (None, \<lparr>dbs = [], roles = [''cf_b1'']\<rparr>)"
  by code_simp

lemma sample_grant:
  "db_Exec mem_postgres \<lparr>dbs = [], roles = [''cf_b1'']\<rparr>
      (''GRANT ALL PRIVILEGES ON DATABASE '' @ quoteIdentifier (dbName postgres_broker0 ''abc'') @
       '' TO '' @ quoteIdentifier (roleName postgres_broker0 ''b1'')) [] =
     (Some (Upstream ''database does not exist''), \<lparr>dbs = [], roles = [''cf_b1'']\<rparr>)"
  by code_simp

subsection \<open>Provision\<close>

text \<open>
  Claim C4. Provision is not idempotent. When the engine reports the derived resource
  absent and carries out the creation, after which it reports the resource present,
  \<open>Provision\<close> succeeds and leaves the engine as the creation left it; a second
  \<open>Provision\<close> with the same InstanceID returns \<open>ErrInstanceAlreadyExists\<close> and leaves the
  backing state as it found it (for the relational broker: the engine and the log; only
  the model's list of issued statements grows by the existence query).
\<close>

theorem provision_twice:
  "(newClient msys mb = None \<and>
    BucketExists msys (store mst) (bucketName (mapLower msys) mb i) = (False, None) \<and>
    MakeBucket msys (store mst) (bucketName (mapLower msys) mb i) = (None, s') \<and>
    BucketExists msys s' (bucketName (mapLower msys) mb i) = (True, None) \<longrightarrow>
      fst (minio_Provision msys mb i mst) = (ProvisionedServiceSpec_zero, None) \<and>
      store (snd (minio_Provision msys mb i mst)) = s' \<and>
      minio_Provision msys mb i (snd (minio_Provision msys mb i mst)) =
        ((ProvisionedServiceSpec_zero, Some ErrInstanceAlreadyExists),
         snd (minio_Provision msys mb i mst))) \<and>
   (connectAdmin sys b = None \<and>
    QueryRow_Scan sys (engine st)
      ''SELECT EXISTS(SELECT 1 FROM pg_database WHERE datname = $1)'' [dbName b i] =
      (False, None) \<and>
    db_Exec sys (engine st) (''CREATE DATABASE '' @ quoteIdentifier (dbName b i)) [] =
      (None, d') \<and>
    QueryRow_Scan sys d'
      ''SELECT EXISTS(SELECT 1 FROM pg_database WHERE datname = $1)'' [dbName b i] =
      (True, None) \<longrightarrow>
      fst (postgres_Provision sys b i st) = (ProvisionedServiceSpec_zero, None) \<and>
      engine (snd (postgres_Provision sys b i st)) = d' \<and>
      fst (postgres_Provision sys b i (snd (postgres_Provision sys b i st))) =
        (ProvisionedServiceSpec_zero, Some ErrInstanceAlreadyExists) \<and>
      engine (snd (postgres_Provision sys b i (snd (postgres_Provision sys b i st)))) = d' \<and>
      pg_logged (snd (postgres_Provision sys b i (snd (postgres_Provision sys b i st)))) =
        pg_logged (snd (postgres_Provision sys b i st)))"
proof -
  have m: "newClient msys mb = None \<and>
    BucketExists msys (store mst) (bucketName (mapLower msys) mb i) = (False, None) \<and>
    MakeBucket msys (store mst) (bucketName (mapLower msys) mb i) = (None, s') \<and>
    BucketExists msys s' (bucketName (mapLower msys) mb i) = (True, None) \<longrightarrow>
      fst (minio_Provision msys mb i mst) = (ProvisionedServiceSpec_zero, None) \<and>
      store (snd (minio_Provision msys mb i mst)) = s' \<and>
      minio_Provision msys mb i (snd (minio_Provision msys mb i mst)) =
        ((ProvisionedServiceSpec_zero, Some ErrInstanceAlreadyExists),
         snd (minio_Provision msys mb i mst))"
    by (simp add: minio_Provision_def minio_Printf_def)
  have p: "connectAdmin sys b = None \<and>
    QueryRow_Scan sys (engine st)
      ''SELECT EXISTS(SELECT 1 FROM pg_database WHERE datname = $1)'' [dbName b i] =
      (False, None) \<and>
    db_Exec sys (engine st) (''CREATE DATABASE '' @ quoteIdentifier (dbName b i)) [] =
      (None, d') \<and>
    QueryRow_Scan sys d'
      ''SELECT EXISTS(SELECT 1 FROM pg_database WHERE datname = $1)'' [dbName b i] =
      (True, None) \<longrightarrow>
      fst (postgres_Provision sys b i st) = (ProvisionedServiceSpec_zero, None) \<and>
      engine (snd (postgres_Provision sys b i st)) = d' \<and>
      fst (postgres_Provision sys b i (snd (postgres_Provision sys b i st))) =
        (ProvisionedServiceSpec_zero, Some ErrInstanceAlreadyExists) \<and>
      engine (snd (postgres_Provision sys b i (snd (postgres_Provision sys b i st)))) = d' \<and>
      pg_logged (snd (postgres_Provision sys b i (snd (postgres_Provision sys b i st)))) =
        pg_logged (snd (postgres_Provision sys b i st))"
    by (simp add: postgres_Provision_def validate_dbName Let_def QueryRow_def Exec_def
        postgres_Printf_def)
  from m p show ?thesis by blast
qed

text \<open>
  Witness for C4: both brokers provision \<open>abc\<close> twice on empty in-memory engines.
\<close>

theorem provision_twice_witness:
  "newClient mem_minio minio_broker0 = None \<and>
   BucketExists mem_minio (store (minio_state0 [] []))
     (bucketName (mapLower mem_minio) minio_broker0 ''abc'') = (False, None) \<and>
   MakeBucket mem_minio (store (minio_state0 [] []))
     (bucketName (mapLower mem_minio) minio_broker0 ''abc'') = (None, [(''cf-abc'', 0)]) \<and>
   BucketExists mem_minio [(''cf-abc'', 0)]
     (bucketName (mapLower mem_minio) minio_broker0 ''abc'') = (True, None) \<and>
   fst (minio_Provision mem_minio minio_broker0 ''abc'' (minio_state0 [] [])) =
     (ProvisionedServiceSpec_zero, None) \<and>
   fst (minio_Provision mem_minio minio_broker0 ''abc''
          (snd (minio_Provision mem_minio minio_broker0 ''abc'' (minio_state0 [] [])))) =
     (ProvisionedServiceSpec_zero, Some ErrInstanceAlreadyExists) \<and>
   connectAdmin mem_postgres postgres_broker0 = None \<and>
   fst (postgres_Provision mem_postgres postgres_broker0 ''abc'' (postgres_state0 [] [] [])) =
     (ProvisionedServiceSpec_zero, None) \<and>
   fst (postgres_Provision mem_postgres postgres_broker0 ''abc''
          (snd (postgres_Provision mem_postgres postgres_broker0 ''abc''
                  (postgres_state0 [] [] [])))) =
     (ProvisionedServiceSpec_zero, Some ErrInstanceAlreadyExists) \<and>
   engine (snd (postgres_Provision mem_postgres postgres_broker0 ''abc''
          (snd (postgres_Provision mem_postgres postgres_broker0 ''abc''
                  (postgres_state0 [] [] []))))) = \<lparr>dbs = [''cf_abc''], roles = []\<rparr>"
proof -
  note t = provision_twice[of mem_minio minio_broker0 "minio_state0 [] []" "''abc''"
      "[(''cf-abc'', 0)]" mem_postgres postgres_broker0 "postgres_state0 [] [] []"
      "\<lparr>dbs = [''cf_abc''], roles = []\<rparr>"]
  have m: "fst (minio_Provision mem_minio minio_broker0 ''abc'' (minio_state0 [] [])) =
     (ProvisionedServiceSpec_zero, None) \<and>
   fst (minio_Provision mem_minio minio_broker0 ''abc''
          (snd (minio_Provision mem_minio minio_broker0 ''abc'' (minio_state0 [] [])))) =
     (ProvisionedServiceSpec_zero, Some ErrInstanceAlreadyExists)"
    using t sample_newClient sample_absent_bucket sample_MakeBucket sample_present_bucket
    by simp
  have p: "fst (postgres_Provision mem_postgres postgres_broker0 ''abc'' (postgres_state0 [] [] [])) =
     (ProvisionedServiceSpec_zero, None) \<and>
   fst (postgres_Provision mem_postgres postgres_broker0 ''abc''
          (snd (postgres_Provision mem_postgres postgres_broker0 ''abc''
                  (postgres_state0 [] [] [])))) =
     (ProvisionedServiceSpec_zero, Some ErrInstanceAlreadyExists) \<and>
   engine (snd (postgres_Provision mem_postgres postgres_broker0 ''abc''
          (snd (postgres_Provision mem_postgres postgres_broker0 ''abc''
                  (postgres_state0 [] [] []))))) = \<lparr>dbs = [''cf_abc''], roles = []\<rparr>"
    using t sample_connect sample_absent_database sample_create_database
      sample_present_database
    by simp
  from m p sample_newClient sample_absent_bucket sample_MakeBucket sample_present_bucket
    sample_connect
  show ?thesis by blast
qed

subsection \<open>Deprovision\<close>

text \<open>
  The relational stand-in answers the two statements of \<open>Deprovision\<close> without error and
  without change when the database is absent; the object-storage stand-in reports a
  bucket absent when no entry has its name.
\<close>

lemma read_ident_quoted:
  assumes "dquote \<notin> set n"
  shows "read_ident (dquote # n @ [dquote]) = Some (n, [])"
proof -
  from assms have t: "takeWhile (\<lambda>x. x \<noteq> dquote) (n @ [dquote]) = n"
    by (induction n) auto
  from assms have d: "dropWhile (\<lambda>x. x \<noteq> dquote) (n @ [dquote]) = [dquote]"
    by (induction n) auto
  show ?thesis by (simp add: read_ident_def t d)
qed

lemma mem_Exec_terminate:
  "mem_Exec d
     (''SELECT pg_terminate_backend(pid) FROM pg_stat_activity '' @
      ''WHERE datname = $1 AND pid <> pg_backend_pid()'') args = (None, d)"
  by (simp add: mem_Exec_def)

lemma mem_Exec_drop_absent:
  assumes "dbName b i \<notin> set (dbs d)"
  shows "mem_Exec d (''DROP DATABASE IF EXISTS '' @ quoteIdentifier (dbName b i)) [] = (None, d)"
proof -
  have q: "quoteIdentifier (dbName b i) = dquote # dbName b i @ [dquote]"
    by (rule quoteIdentifier_valid) (rule identChar_dbName)
  have n: "dquote \<notin> set (dbName b i)"
    using identChar_dbName[of b i] identChar_not_dquote by (auto simp: list_all_iff)
  have r: "read_ident (quoteIdentifier (dbName b i)) = Some (dbName b i, [])"
    unfolding q by (rule read_ident_quoted[OF n])
  from assms show ?thesis
    by (simp add: mem_Exec_def r)
qed

lemma mem_BucketExists_absent:
  "n \<notin> set (map fst s) \<Longrightarrow> mem_BucketExists s n = (False, None)"
  by (simp add: mem_BucketExists_def)

lemma postgres_Deprovision_absent:
  assumes "connectAdmin sys b = None"
    and "db_Exec sys (engine st)
      (''SELECT pg_terminate_backend(pid) FROM pg_stat_activity '' @
       ''WHERE datname = $1 AND pid <> pg_backend_pid()'') [dbName b i] = (e1, engine st)"
    and "db_Exec sys (engine st) (''DROP DATABASE IF EXISTS '' @ quoteIdentifier (dbName b i)) [] =
      (None, engine st)"
  shows "fst (postgres_Deprovision sys b i st) = (DeprovisionServiceSpec_zero, None) \<and>
      engine (snd (postgres_Deprovision sys b i st)) = engine st \<and>
      issued (snd (postgres_Deprovision sys b i st)) =
        issued st @
        [(''SELECT pg_terminate_backend(pid) FROM pg_stat_activity '' @
          ''WHERE datname = $1 AND pid <> pg_backend_pid()'', [dbName b i]),
         (''DROP DATABASE IF EXISTS '' @ quoteIdentifier (dbName b i), [])]"
  using assms
  by (auto simp add: postgres_Deprovision_def validate_dbName Let_def Exec_def
      postgres_Printf_def split: option.split prod.split)

text \<open>
  Claim C6. \<open>Deprovision\<close> is idempotent on absence, for both brokers. When the object
  store reports the bucket absent, \<open>Deprovision\<close> of the object-storage broker returns
  success, calls no removal and changes nothing but the log. \<open>Deprovision\<close> of the
  relational broker makes no existence check of its own: it issues the
  terminate-connections query, whose outcome it only logs, and \<open>DROP DATABASE IF EXISTS\<close>;
  when the engine answers that statement for the absent database with no error and no
  change, \<open>Deprovision\<close> returns success, the engine is unchanged and nothing else is
  issued. On the in-memory engines this holds for every InstanceID whose bucket or
  database is absent, whatever else the engine holds.
\<close>

theorem deprovision_absent:
  "(newClient msys mb = None \<and>
    BucketExists msys (store mst) (bucketName (mapLower msys) mb i) = (False, None) \<longrightarrow>
      minio_Deprovision msys mb i mst =
        ((DeprovisionServiceSpec_zero, None),
         mst\<lparr>logged := logged mst @
           [(''Bucket %s already removed'', [S (bucketName (mapLower msys) mb i)])]\<rparr>)) \<and>
   (connectAdmin sys b = None \<and>
    db_Exec sys (engine st)
      (''SELECT pg_terminate_backend(pid) FROM pg_stat_activity '' @
       ''WHERE datname = $1 AND pid <> pg_backend_pid()'') [dbName b i] = (e1, engine st) \<and>
    db_Exec sys (engine st) (''DROP DATABASE IF EXISTS '' @ quoteIdentifier (dbName b i)) [] =
      (None, engine st) \<longrightarrow>
      fst (postgres_Deprovision sys b i st) = (DeprovisionServiceSpec_zero, None) \<and>
      engine (snd (postgres_Deprovision sys b i st)) = engine st \<and>
      issued (snd (postgres_Deprovision sys b i st)) =
        issued st @
        [(''SELECT pg_terminate_backend(pid) FROM pg_stat_activity '' @
          ''WHERE datname = $1 AND pid <> pg_backend_pid()'', [dbName b i]),
         (''DROP DATABASE IF EXISTS '' @ quoteIdentifier (dbName b i), [])]) \<and>
   (bucketName (mapLower mem_minio) minio_broker0 i \<notin> set (map fst s) \<longrightarrow>
      fst (minio_Deprovision mem_minio minio_broker0 i (minio_state0 s r)) =
        (DeprovisionServiceSpec_zero, None) \<and>
      store (snd (minio_Deprovision mem_minio minio_broker0 i (minio_state0 s r))) = s) \<and>
   (dbName postgres_broker0 i \<notin> set ds \<longrightarrow>
      fst (postgres_Deprovision mem_postgres postgres_broker0 i (postgres_state0 ds rs r)) =
        (DeprovisionServiceSpec_zero, None) \<and>
      engine (snd (postgres_Deprovision mem_postgres postgres_broker0 i
                     (postgres_state0 ds rs r))) = \<lparr>dbs = ds, roles = rs\<rparr>)"
proof -
  have m: "newClient msys mb = None \<and>
    BucketExists msys (store mst) (bucketName (mapLower msys) mb i) = (False, None) \<longrightarrow>
      minio_Deprovision msys mb i mst =
        ((DeprovisionServiceSpec_zero, None),
         mst\<lparr>logged := logged mst @
           [(''Bucket %s already removed'', [S (bucketName (mapLower msys) mb i)])]\<rparr>)"
    by (simp add: minio_Deprovision_def minio_Printf_def)
  have p: "connectAdmin sys b = None \<and>
    db_Exec sys (engine st)
      (''SELECT pg_terminate_backend(pid) FROM pg_stat_activity '' @
       ''WHERE datname = $1 AND pid <> pg_backend_pid()'') [dbName b i] = (e1, engine st) \<and>
    db_Exec sys (engine st) (''DROP DATABASE IF EXISTS '' @ quoteIdentifier (dbName b i)) [] =
      (None, engine st) \<longrightarrow>
      fst (postgres_Deprovision sys b i st) = (DeprovisionServiceSpec_zero, None) \<and>
      engine (snd (postgres_Deprovision sys b i st)) = engine st \<and>
      issued (snd (postgres_Deprovision sys b i st)) =
        issued st @
        [(''SELECT pg_terminate_backend(pid) FROM pg_stat_activity '' @
          ''WHERE datname = $1 AND pid <> pg_backend_pid()'', [dbName b i]),
         (''DROP DATABASE IF EXISTS '' @ quoteIdentifier (dbName b i), [])]"
    using postgres_Deprovision_absent[of sys b st i e1] by blast
  have ms: "bucketName (mapLower mem_minio) minio_broker0 i \<notin> set (map fst s) \<longrightarrow>
      fst (minio_Deprovision mem_minio minio_broker0 i (minio_state0 s r)) =
        (DeprovisionServiceSpec_zero, None) \<and>
      store (snd (minio_Deprovision mem_minio minio_broker0 i (minio_state0 s r))) = s"
  proof
    assume a: "bucketName (mapLower mem_minio) minio_broker0 i \<notin> set (map fst s)"
    have "BucketExists mem_minio (store (minio_state0 s r))
            (bucketName (mapLower mem_minio) minio_broker0 i) = (False, None)"
      using mem_BucketExists_absent[OF a] by (simp add: mem_minio_def minio_state0_def)
    then show "fst (minio_Deprovision mem_minio minio_broker0 i (minio_state0 s r)) =
        (DeprovisionServiceSpec_zero, None) \<and>
      store (snd (minio_Deprovision mem_minio minio_broker0 i (minio_state0 s r))) = s"
      by (simp add: minio_Deprovision_def minio_Printf_def sample_newClient minio_state0_def)
  qed
  have ps: "dbName postgres_broker0 i \<notin> set ds \<longrightarrow>
      fst (postgres_Deprovision mem_postgres postgres_broker0 i (postgres_state0 ds rs r)) =
        (DeprovisionServiceSpec_zero, None) \<and>
      engine (snd (postgres_Deprovision mem_postgres postgres_broker0 i
                     (postgres_state0 ds rs r))) = \<lparr>dbs = ds, roles = rs\<rparr>"
  proof
    assume a: "dbName postgres_broker0 i \<notin> set ds"
    then have d: "mem_Exec \<lparr>dbs = ds, roles = rs\<rparr>
        (''DROP DATABASE IF EXISTS '' @ quoteIdentifier (dbName postgres_broker0 i)) [] =
        (None, \<lparr>dbs = ds, roles = rs\<rparr>)"
      by (intro mem_Exec_drop_absent) simp
    have e: "engine (postgres_state0 ds rs r) = \<lparr>dbs = ds, roles = rs\<rparr>"
      by (simp add: postgres_state0_def)
    have x: "db_Exec mem_postgres = mem_Exec" by (simp add: mem_postgres_def)
    have t: "db_Exec mem_postgres (engine (postgres_state0 ds rs r))
      (''SELECT pg_terminate_backend(pid) FROM pg_stat_activity '' @
       ''WHERE datname = $1 AND pid <> pg_backend_pid()'') [dbName postgres_broker0 i] =
      (None, engine (postgres_state0 ds rs r))"
      unfolding x by (rule mem_Exec_terminate)
    have d': "db_Exec mem_postgres (engine (postgres_state0 ds rs r))
      (''DROP DATABASE IF EXISTS '' @ quoteIdentifier (dbName postgres_broker0 i)) [] =
      (None, engine (postgres_state0 ds rs r))"
      unfolding x e by (rule d)
    from postgres_Deprovision_absent[OF sample_connect t d']
    show "fst (postgres_Deprovision mem_postgres postgres_broker0 i (postgres_state0 ds rs r)) =
        (DeprovisionServiceSpec_zero, None) \<and>
      engine (snd (postgres_Deprovision mem_postgres postgres_broker0 i
                     (postgres_state0 ds rs r))) = \<lparr>dbs = ds, roles = rs\<rparr>"
      by (simp add: e)
  qed
  from m p ms ps show ?thesis by blast
qed


text \<open>
  Witness for C6: both brokers deprovision \<open>abc\<close> on in-memory engines that hold another
  bucket, another database and a role, but neither \<open>cf-abc\<close> nor \<open>cf_abc\<close>.
\<close>

theorem deprovision_absent_witness:
  "newClient mem_minio minio_broker0 = None \<and>
   BucketExists mem_minio (store (minio_state0 [(''cf-other'', 1)] []))
     (bucketName (mapLower mem_minio) minio_broker0 ''abc'') = (False, None) \<and>
   minio_Deprovision mem_minio minio_broker0 ''abc'' (minio_state0 [(''cf-other'', 1)] []) =
     ((DeprovisionServiceSpec_zero, None),
      \<lparr>store = [(''cf-other'', 1)], entropy = [],
       logged = [(''Bucket %s already removed'', [S ''cf-abc''])]\<rparr>) \<and>
   connectAdmin mem_postgres postgres_broker0 = None \<and>
   db_Exec mem_postgres (engine (postgres_state0 [''cf_other''] [''cf_b1''] []))
     (''SELECT pg_terminate_backend(pid) FROM pg_stat_activity '' @
      ''WHERE datname = $1 AND pid <> pg_backend_pid()'') [dbName postgres_broker0 ''abc''] =
     (None, engine (postgres_state0 [''cf_other''] [''cf_b1''] [])) \<and>
   db_Exec mem_postgres (engine (postgres_state0 [''cf_other''] [''cf_b1''] []))
     (''DROP DATABASE IF EXISTS '' @ quoteIdentifier (dbName postgres_broker0 ''abc'')) [] =
     (None, engine (postgres_state0 [''cf_other''] [''cf_b1''] [])) \<and>
   fst (postgres_Deprovision mem_postgres postgres_broker0 ''abc''
          (postgres_state0 [''cf_other''] [''cf_b1''] [])) =
     (DeprovisionServiceSpec_zero, None) \<and>
   issued (snd (postgres_Deprovision mem_postgres postgres_broker0 ''abc''
          (postgres_state0 [''cf_other''] [''cf_b1''] []))) =
     [(''SELECT pg_terminate_backend(pid) FROM pg_stat_activity '' @
       ''WHERE datname = $1 AND pid <> pg_backend_pid()'', [''cf_abc'']),
      (''DROP DATABASE IF EXISTS '' @ [dquote] @ ''cf_abc'' @ [dquote], [])] \<and>
   bucketName (mapLower mem_minio) minio_broker0 ''abc'' \<notin> set (map fst [(''cf-other'', 1::nat)]) \<and>
   store (snd (minio_Deprovision mem_minio minio_broker0 ''abc''
          (minio_state0 [(''cf-other'', 1)] []))) = [(''cf-other'', 1)] \<and>
   dbName postgres_broker0 ''abc'' \<notin> set [''cf_other''] \<and>
   engine (snd (postgres_Deprovision mem_postgres postgres_broker0 ''abc''
          (postgres_state0 [''cf_other''] [''cf_b1''] []))) =
     \<lparr>dbs = [''cf_other''], roles = [''cf_b1'']\<rparr>"
proof -
  note t = deprovision_absent[where msys = mem_minio and mb = minio_broker0
      and mst = "minio_state0 [(''cf-other'', 1)] []" and i = "''abc''"
      and sys = mem_postgres and b = postgres_broker0
      and st = "postgres_state0 [''cf_other''] [''cf_b1''] []" and ?e1.0 = None
      and s = "[(''cf-other'', 1)]" and r = "[]" and ds = "[''cf_other'']"
      and rs = "[''cf_b1'']"]
  have n: "bucketName (mapLower mem_minio) minio_broker0 ''abc'' = ''cf-abc''"
    by (rule sample_bucket)
  have a: "BucketExists mem_minio (store (minio_state0 [(''cf-other'', 1)] []))
     (bucketName (mapLower mem_minio) minio_broker0 ''abc'') = (False, None)"
    by code_simp
  have k: "dbName postgres_broker0 ''abc'' = ''cf_abc''" by code_simp
  have q: "quoteIdentifier ''cf_abc'' = [dquote] @ ''cf_abc'' @ [dquote]"
    by code_simp
  have x: "db_Exec mem_postgres (engine (postgres_state0 [''cf_other''] [''cf_b1''] []))
     (''SELECT pg_terminate_backend(pid) FROM pg_stat_activity '' @
      ''WHERE datname = $1 AND pid <> pg_backend_pid()'') [dbName postgres_broker0 ''abc''] =
     (None, engine (postgres_state0 [''cf_other''] [''cf_b1''] []))"
    by code_simp
  have y: "db_Exec mem_postgres (engine (postgres_state0 [''cf_other''] [''cf_b1''] []))
     (''DROP DATABASE IF EXISTS '' @ quoteIdentifier (dbName postgres_broker0 ''abc'')) [] =
     (None, engine (postgres_state0 [''cf_other''] [''cf_b1''] []))"
    by code_simp
  have bn: "bucketName (mapLower mem_minio) minio_broker0 ''abc'' \<notin>
      set (map fst [(''cf-other'', 1::nat)])"
    by (simp add: n)
  have dn: "dbName postgres_broker0 ''abc'' \<notin> set [''cf_other'']"
    by (simp add: k)
  have m: "minio_Deprovision mem_minio minio_broker0 ''abc'' (minio_state0 [(''cf-other'', 1)] []) =
     ((DeprovisionServiceSpec_zero, None),
      \<lparr>store = [(''cf-other'', 1)], entropy = [],
       logged = [(''Bucket %s already removed'', [S ''cf-abc''])]\<rparr>)"
    using t sample_newClient a by (simp add: minio_state0_def n)
  have p: "fst (postgres_Deprovision mem_postgres postgres_broker0 ''abc''
          (postgres_state0 [''cf_other''] [''cf_b1''] [])) =
     (DeprovisionServiceSpec_zero, None) \<and>
   issued (snd (postgres_Deprovision mem_postgres postgres_broker0 ''abc''
          (postgres_state0 [''cf_other''] [''cf_b1''] []))) =
     [(''SELECT pg_terminate_backend(pid) FROM pg_stat_activity '' @
       ''WHERE datname = $1 AND pid <> pg_backend_pid()'', [''cf_abc'']),
      (''DROP DATABASE IF EXISTS '' @ [dquote] @ ''cf_abc'' @ [dquote], [])]"
  proof -
    from t sample_connect x y
    have "fst (postgres_Deprovision mem_postgres postgres_broker0 ''abc''
          (postgres_state0 [''cf_other''] [''cf_b1''] [])) =
        (DeprovisionServiceSpec_zero, None) \<and>
      issued (snd (postgres_Deprovision mem_postgres postgres_broker0 ''abc''
          (postgres_state0 [''cf_other''] [''cf_b1''] []))) =
        issued (postgres_state0 [''cf_other''] [''cf_b1''] []) @
        [(''SELECT pg_terminate_backend(pid) FROM pg_stat_activity '' @
          ''WHERE datname = $1 AND pid <> pg_backend_pid()'', [dbName postgres_broker0 ''abc'']),
         (''DROP DATABASE IF EXISTS '' @ quoteIdentifier (dbName postgres_broker0 ''abc''), [])]"
      by blast
    then show ?thesis by (simp add: k q postgres_state0_def)
  qed
  have ms: "store (snd (minio_Deprovision mem_minio minio_broker0 ''abc''
          (minio_state0 [(''cf-other'', 1)] []))) = [(''cf-other'', 1)]"
    using t bn by blast
  have ps: "engine (snd (postgres_Deprovision mem_postgres postgres_broker0 ''abc''
          (postgres_state0 [''cf_other''] [''cf_b1''] []))) =
     \<lparr>dbs = [''cf_other''], roles = [''cf_b1'']\<rparr>"
    using t dn by blast
  from sample_newClient a m sample_connect x y p bn ms dn ps show ?thesis by blast
qed

subsection \<open>Bind\<close>

text \<open>
  The object-storage half of claim C1: when the object store reports the bucket absent,
  \<open>Bind\<close> returns \<open>ErrInstanceDoesNotExist\<close> with the zero binding, draws no random bytes
  and changes nothing.
\<close>

lemma minio_Bind_absent:
  assumes "newClient sys b = None"
    and "BucketExists sys (store st) (bucketName (mapLower sys) b i) = (False, None)"
  shows "minio_Bind sys b i bid st = Return ((Binding_zero, Some ErrInstanceDoesNotExist), st)"
  using assms by (simp add: minio_Bind_def)

lemma generatePassword_error:
  "generatePassword read n r \<noteq> Return ((x, Some ErrInstanceDoesNotExist), r')"
  by (simp add: generatePassword_def Let_def split: option.split prod.split)

lemma postgres_Bind_never_DoesNotExist:
  "postgres_Bind sys b i bid st \<noteq> Return ((v, Some ErrInstanceDoesNotExist), st')"
  using generatePassword_error[of "postgres_rand sys" 16 "pg_entropy st"]
  by (auto simp add: postgres_Bind_def validate_dbName validate_roleName Let_def
      split: option.split prod.split outcome.split)

text \<open>
  Claim C1 asks the same of the relational broker, whose \<open>Bind\<close> makes no existence
  check. Whatever the engine answers, it never returns \<open>ErrInstanceDoesNotExist\<close>. On an
  in-memory engine without the database \<open>cf_abc\<close>, \<open>Bind("abc", "b1")\<close> creates the role
  \<open>cf_b1\<close> with its password, fails at the grant, and returns the wrapped engine error
  with the zero binding; the role stays behind.
\<close>

theorem postgres_Bind_missing_check:
  "postgres_Bind sys b instanceID bindingID st \<noteq>
     Return ((v, Some ErrInstanceDoesNotExist), st') \<and>
   map_option fst (returned (postgres_Bind mem_postgres postgres_broker0 ''abc'' ''b1''
       (postgres_state0 [] [] (replicate 16 0xa7)))) =
     Some (Binding_zero,
           Some (Errorf ''failed to grant privileges: %w''
                   [E (Upstream ''database does not exist'')])) \<and>
   map_option (\<lambda>r. engine (snd r)) (returned (postgres_Bind mem_postgres postgres_broker0
       ''abc'' ''b1'' (postgres_state0 [] [] (replicate 16 0xa7)))) =
     Some \<lparr>dbs = [], roles = [''cf_b1'']\<rparr>"
proof -
  have "\<exists>st1. postgres_Bind mem_postgres postgres_broker0 ''abc'' ''b1''
       (postgres_state0 [] [] (replicate 16 0xa7)) =
     Return ((Binding_zero,
           Some (Errorf ''failed to grant privileges: %w''
                   [E (Upstream ''database does not exist'')])), st1) \<and>
     engine st1 = \<lparr>dbs = [], roles = [''cf_b1'']\<rparr>"
    using sample_create_role sample_grant
    by (simp add: postgres_Bind_def validate_dbName validate_roleName Let_def
        postgres_state0_def sample_password sample_connect Exec_def)
  then show ?thesis
    using postgres_Bind_never_DoesNotExist[of sys b instanceID bindingID st v st']
    by (auto simp add: returned_def)
qed

subsection \<open>Unbind\<close>

lemma minio_Unbind_ok: "snd (fst (minio_Unbind msys mb i bid mst)) = None"
  by (simp add: minio_Unbind_def)

text \<open>
  Claim C7. \<open>Unbind\<close> of the object-storage broker never returns an error. \<open>Unbind\<close> of the
  relational broker, once connected, runs the revocation and then the role drop on the
  engine the revocation left, whatever the revocation reported: a failed revocation is
  logged as a warning, and the call returns an error exactly when the role drop fails.
\<close>

theorem unbind_failure_modes:
  "snd (fst (minio_Unbind msys mb instanceID bindingID mst)) = None \<and>
   (connectAdmin sys b = None \<and>
    db_Exec sys (engine st)
      (''REVOKE ALL PRIVILEGES ON DATABASE '' @ quoteIdentifier (dbName b instanceID) @
       '' FROM '' @ quoteIdentifier (roleName b bindingID)) [] = (e1, d1) \<and>
    db_Exec sys d1 (''DROP ROLE IF EXISTS '' @ quoteIdentifier (roleName b bindingID)) [] =
      (e2, d2) \<longrightarrow>
      snd (fst (postgres_Unbind sys b instanceID bindingID st)) =
        (case e2 of
           None \<Rightarrow> None
         | Some e \<Rightarrow>
             Some (Errorf ''failed to drop role %s: %w'' [S (roleName b bindingID), E e])) \<and>
      engine (snd (postgres_Unbind sys b instanceID bindingID st)) = d2 \<and>
      (\<forall>e. e1 = Some e \<longrightarrow>
         (''Warning: failed to revoke privileges for %s: %v'', [S (roleName b bindingID), E e])
           \<in> set (pg_logged (snd (postgres_Unbind sys b instanceID bindingID st)))))"
  by (auto simp add: minio_Unbind_def postgres_Unbind_def validate_dbName validate_roleName
      Let_def Exec_def postgres_Printf_def split: option.split prod.split)

text \<open>
  Witness for C7: on the in-memory engine without the database the revocation fails, the
  role is dropped all the same and \<open>Unbind\<close> succeeds; on the unreachable engine the role
  drop fails and \<open>Unbind\<close> returns its error.
\<close>

theorem unbind_failure_modes_witness:
  "connectAdmin mem_postgres postgres_broker0 = None \<and>
   snd (fst (postgres_Unbind mem_postgres postgres_broker0 ''abc'' ''b1''
               (postgres_state0 [] [''cf_b1''] []))) = None \<and>
   engine (snd (postgres_Unbind mem_postgres postgres_broker0 ''abc'' ''b1''
               (postgres_state0 [] [''cf_b1''] []))) = \<lparr>dbs = [], roles = []\<rparr> \<and>
   (''Warning: failed to revoke privileges for %s: %v'',
      [S (roleName postgres_broker0 ''b1''), E (Upstream ''database does not exist'')])
     \<in> set (pg_logged (snd (postgres_Unbind mem_postgres postgres_broker0 ''abc'' ''b1''
               (postgres_state0 [] [''cf_b1''] [])))) \<and>
   connectAdmin down_postgres postgres_broker0 = None \<and>
   snd (fst (postgres_Unbind down_postgres postgres_broker0 ''abc'' ''b1''
               (postgres_state0 [''cf_abc''] [''cf_b1''] []))) =
     Some (Errorf ''failed to drop role %s: %w''
             [S (roleName postgres_broker0 ''b1''), E (Upstream ''connection refused'')])"
proof -
  note up = unbind_failure_modes[of mem_minio minio_broker0 "''abc''" "''b1''"
      "minio_state0 [] []" mem_postgres postgres_broker0
      "postgres_state0 [] [''cf_b1''] []"
      "Some (Upstream ''database does not exist'')" "\<lparr>dbs = [], roles = [''cf_b1'']\<rparr>"
      None "\<lparr>dbs = [], roles = []\<rparr>"]
  note down = unbind_failure_modes[of mem_minio minio_broker0 "''abc''" "''b1''"
      "minio_state0 [] []" down_postgres postgres_broker0
      "postgres_state0 [''cf_abc''] [''cf_b1''] []"
      "Some (Upstream ''connection refused'')" "\<lparr>dbs = [''cf_abc''], roles = [''cf_b1'']\<rparr>"
      "Some (Upstream ''connection refused'')" "\<lparr>dbs = [''cf_abc''], roles = [''cf_b1'']\<rparr>"]
  have a: "connectAdmin mem_postgres postgres_broker0 = None \<and>
   snd (fst (postgres_Unbind mem_postgres postgres_broker0 ''abc'' ''b1''
               (postgres_state0 [] [''cf_b1''] []))) = None \<and>
   engine (snd (postgres_Unbind mem_postgres postgres_broker0 ''abc'' ''b1''
               (postgres_state0 [] [''cf_b1''] []))) = \<lparr>dbs = [], roles = []\<rparr> \<and>
   (''Warning: failed to revoke privileges for %s: %v'',
      [S (roleName postgres_broker0 ''b1''), E (Upstream ''database does not exist'')])
     \<in> set (pg_logged (snd (postgres_Unbind mem_postgres postgres_broker0 ''abc'' ''b1''
               (postgres_state0 [] [''cf_b1''] []))))"
    using up sample_connect sample_revoke sample_drop_role by simp
  have b: "connectAdmin down_postgres postgres_broker0 = None \<and>
   snd (fst (postgres_Unbind down_postgres postgres_broker0 ''abc'' ''b1''
               (postgres_state0 [''cf_abc''] [''cf_b1''] []))) =
     Some (Errorf ''failed to drop role %s: %w''
             [S (roleName postgres_broker0 ''b1''), E (Upstream ''connection refused'')])"
    using down sample_connect_down by (simp add: sample_down_Exec postgres_state0_def)
  from a b show ?thesis by blast
qed

section \<open>Statements sent to the relational engine\<close>

lemma lowerHex_not_squote: "lowerHex c \<Longrightarrow> c \<noteq> squote"
  by (auto simp: lowerHex_def in_range_def squote_def)

lemma well_quoted_Identifier:
  "list_all identChar n \<Longrightarrow>
   well_quoted Identifier (n @ dquote # rest) = well_quoted Unquoted rest"
  by (induction n) (auto simp: identChar_not_dquote)

lemma well_quoted_Literal:
  "list_all lowerHex p \<Longrightarrow>
   well_quoted Literal (p @ squote # rest) = well_quoted Unquoted rest"
  by (induction p) (auto simp: lowerHex_not_squote)

lemma well_quoted_keyword:
  "list_all (\<lambda>c. isUpper c \<or> c = CHR '' '') k \<Longrightarrow>
   well_quoted Unquoted (k @ rest) = well_quoted Unquoted rest"
  by (induction k) (auto simp: isUpper_def in_range_def dquote_def squote_def)

lemma quotes_distinct: "squote \<noteq> dquote" "dquote \<noteq> squote"
  by (simp_all add: dquote_def squote_def)

lemma quoteLiteral_hex:
  assumes "list_all lowerHex p"
  shows "quoteLiteral p = squote # p @ [squote]"
proof -
  from assms have "squote \<notin> set p"
    using lowerHex_not_squote by (auto simp: list_all_iff)
  then show ?thesis by (simp add: quoteLiteral_def ReplaceAll_absent)
qed

lemma well_quoted_quoteIdentifier:
  "list_all identChar n \<Longrightarrow>
   well_quoted Unquoted (quoteIdentifier n @ rest) = well_quoted Unquoted rest"
  by (simp add: quoteIdentifier_valid well_quoted_Identifier)

lemma well_quoted_quoteLiteral:
  "list_all lowerHex p \<Longrightarrow>
   well_quoted Unquoted (quoteLiteral p @ rest) = well_quoted Unquoted rest"
  by (simp add: quoteLiteral_hex well_quoted_Literal quotes_distinct)

lemma keyword_chars:
  "list_all (\<lambda>c. isUpper c \<or> c = CHR '' '') ''CREATE DATABASE ''"
  "list_all (\<lambda>c. isUpper c \<or> c = CHR '' '') ''DROP DATABASE IF EXISTS ''"
  "list_all (\<lambda>c. isUpper c \<or> c = CHR '' '') ''CREATE ROLE ''"
  "list_all (\<lambda>c. isUpper c \<or> c = CHR '' '') '' WITH LOGIN PASSWORD ''"
  "list_all (\<lambda>c. isUpper c \<or> c = CHR '' '') ''GRANT ALL PRIVILEGES ON DATABASE ''"
  "list_all (\<lambda>c. isUpper c \<or> c = CHR '' '') '' TO ''"
  "list_all (\<lambda>c. isUpper c \<or> c = CHR '' '') ''REVOKE ALL PRIVILEGES ON DATABASE ''"
  "list_all (\<lambda>c. isUpper c \<or> c = CHR '' '') '' FROM ''"
  "list_all (\<lambda>c. isUpper c \<or> c = CHR '' '') ''DROP ROLE IF EXISTS ''"
  by (simp_all add: isUpper_def in_range_def)

lemma safe_Provision_statements: "list_all safe_statement (Provision_statements b i)"
proof -
  have "well_quoted Unquoted (''CREATE DATABASE '' @ quoteIdentifier (dbName b i) @ [])"
    by (simp only: well_quoted_keyword[OF keyword_chars(1)]
        well_quoted_quoteIdentifier[OF identChar_dbName] well_quoted.simps)
  then show ?thesis
    by (simp add: Provision_statements_def safe_statement_def exists_query_def
        terminate_query_def)
qed

lemma safe_Deprovision_statements: "list_all safe_statement (Deprovision_statements b i)"
proof -
  have "well_quoted Unquoted (''DROP DATABASE IF EXISTS '' @ quoteIdentifier (dbName b i) @ [])"
    by (simp only: well_quoted_keyword[OF keyword_chars(2)]
        well_quoted_quoteIdentifier[OF identChar_dbName] well_quoted.simps)
  then show ?thesis
    by (simp add: Deprovision_statements_def safe_statement_def exists_query_def
        terminate_query_def)
qed

lemma safe_Bind_statements:
  assumes "list_all lowerHex pw"
  shows "list_all safe_statement (Bind_statements b i bid pw)"
proof -
  have 1: "well_quoted Unquoted
          (''CREATE ROLE '' @ quoteIdentifier (roleName b bid) @ '' WITH LOGIN PASSWORD '' @
           quoteLiteral pw @ [])"
    by (simp only: well_quoted_keyword[OF keyword_chars(3)]
        well_quoted_keyword[OF keyword_chars(4)]
        well_quoted_quoteIdentifier[OF identChar_roleName]
        well_quoted_quoteLiteral[OF assms] well_quoted.simps)
  have 2: "well_quoted Unquoted
          (''GRANT ALL PRIVILEGES ON DATABASE '' @ quoteIdentifier (dbName b i) @ '' TO '' @
           quoteIdentifier (roleName b bid) @ [])"
    by (simp only: well_quoted_keyword[OF keyword_chars(5)]
        well_quoted_keyword[OF keyword_chars(6)]
        well_quoted_quoteIdentifier[OF identChar_roleName]
        well_quoted_quoteIdentifier[OF identChar_dbName] well_quoted.simps)
  from 1 2 show ?thesis
    by (simp add: Bind_statements_def safe_statement_def exists_query_def
        terminate_query_def)
qed

lemma safe_Unbind_statements: "list_all safe_statement (Unbind_statements b i bid)"
proof -
  have 1: "well_quoted Unquoted
          (''REVOKE ALL PRIVILEGES ON DATABASE '' @ quoteIdentifier (dbName b i) @ '' FROM '' @
           quoteIdentifier (roleName b bid) @ [])"
    by (simp only: well_quoted_keyword[OF keyword_chars(7)]
        well_quoted_keyword[OF keyword_chars(8)]
        well_quoted_quoteIdentifier[OF identChar_roleName]
        well_quoted_quoteIdentifier[OF identChar_dbName] well_quoted.simps)
  have 2: "well_quoted Unquoted (''DROP ROLE IF EXISTS '' @ quoteIdentifier (roleName b bid) @ [])"
    by (simp only: well_quoted_keyword[OF keyword_chars(9)]
        well_quoted_quoteIdentifier[OF identChar_roleName] well_quoted.simps)
  from 1 2 show ?thesis
    by (simp add: Unbind_statements_def safe_statement_def exists_query_def
        terminate_query_def)
qed

lemma take_two: "(\<exists>n. xs = take n [a, c]) \<longleftrightarrow> xs = [] \<or> xs = [a] \<or> xs = [a, c]"
proof
  assume "\<exists>n. xs = take n [a, c]"
  then obtain n where n: "xs = take n [a, c]" ..
  show "xs = [] \<or> xs = [a] \<or> xs = [a, c]"
  proof (cases n)
    case 0
    with n show ?thesis by simp
  next
    case (Suc m)
    with n show ?thesis by (cases m) simp_all
  qed
next
  assume "xs = [] \<or> xs = [a] \<or> xs = [a, c]"
  then show "\<exists>n. xs = take n [a, c]"
  proof (elim disjE)
    assume "xs = []"
    then have "xs = take 0 [a, c]" by simp
    then show ?thesis ..
  next
    assume "xs = [a]"
    then have "xs = take 1 [a, c]" by simp
    then show ?thesis ..
  next
    assume "xs = [a, c]"
    then have "xs = take 2 [a, c]" by simp
    then show ?thesis ..
  qed
qed

lemma issued_Provision:
  "\<exists>n. drop (length (issued st)) (issued (snd (postgres_Provision sys b i st))) =
         take n (Provision_statements b i)"
  unfolding Provision_statements_def take_two
  by (auto simp add: postgres_Provision_def Let_def QueryRow_def Exec_def postgres_Printf_def
      exists_query_def split: option.split prod.split)

lemma issued_Deprovision:
  "\<exists>n. drop (length (issued st)) (issued (snd (postgres_Deprovision sys b i st))) =
         take n (Deprovision_statements b i)"
  unfolding Deprovision_statements_def take_two
  by (auto simp add: postgres_Deprovision_def Let_def Exec_def postgres_Printf_def
      terminate_query_def split: option.split prod.split)

lemma issued_Unbind:
  "\<exists>n. drop (length (issued st)) (issued (snd (postgres_Unbind sys b i bid st))) =
         take n (Unbind_statements b i bid)"
  unfolding Unbind_statements_def take_two
  by (auto simp add: postgres_Unbind_def Let_def Exec_def postgres_Printf_def
      split: option.split prod.split)

lemma issued_Bind:
  "\<exists>r pw n. postgres_Bind sys b i bid st = Return r \<and> list_all lowerHex pw \<and>
     drop (length (issued st)) (issued (snd r)) = take n (Bind_statements b i bid pw)"
proof -
  have z: "(0::int) \<le> 16" by simp
  from generatePassword_cases[OF z, of "postgres_rand sys" "pg_entropy st"]
  show ?thesis
  proof
    assume "\<exists>e r'. generatePassword (postgres_rand sys) 16 (pg_entropy st) =
              Return (([], Some e), r')"
    then obtain e r' where
      g: "generatePassword (postgres_rand sys) 16 (pg_entropy st) = Return (([], Some e), r')"
      by blast
    have "postgres_Bind sys b i bid st = Return ((Binding_zero, Some e), st\<lparr>pg_entropy := r'\<rparr>)"
      by (simp add: postgres_Bind_def Let_def validate_dbName validate_roleName g)
    moreover have "list_all lowerHex []" by simp
    moreover have "drop (length (issued st))
        (issued (snd ((Binding_zero, Some e), st\<lparr>pg_entropy := r'\<rparr>))) =
        take 0 (Bind_statements b i bid [])" by simp
    ultimately show ?thesis by metis
  next
    assume "\<exists>s r'. generatePassword (postgres_rand sys) 16 (pg_entropy st) =
              Return ((s, None), r') \<and> length s = 2 * nat 16 \<and> list_all lowerHex s"
    then obtain pw r' where
      g: "generatePassword (postgres_rand sys) 16 (pg_entropy st) = Return ((pw, None), r')"
      and h: "list_all lowerHex pw"
      by blast
    have "\<exists>r. postgres_Bind sys b i bid st = Return r \<and>
            (\<exists>n. drop (length (issued st)) (issued (snd r)) = take n (Bind_statements b i bid pw))"
      unfolding Bind_statements_def take_two
      by (auto simp add: postgres_Bind_def Let_def validate_dbName validate_roleName g Exec_def
          postgres_Printf_def split: option.split prod.split)
    with h show ?thesis by blast
  qed
qed

text \<open>
  Claim C3. The injection attempt \<open>x; DROP TABLE users; --\<close> is sanitized to
  \<open>xDROPTABLEusers__\<close>, made of characters of \<open>[a-zA-Z0-9_]\<close> only. For every InstanceID,
  BindingID and engine behaviour, the statements \<open>Provision\<close>, \<open>Deprovision\<close>, \<open>Bind\<close> and
  \<open>Unbind\<close> send are an initial part of the listed ones, in which the platform's
  identifiers occur only as \<open>quoteIdentifier\<close> of the derived names, which pass
  \<open>validateIdentifier\<close>, or as bound arguments; each listed statement is safe: outside quotes it has keywords only, inside
  double quotes only characters of the allow-list, and the password literal of \<open>Bind\<close> is
  made of hexadecimal digits. \<open>Bind\<close> does not panic.
\<close>

theorem statements_quoted:
  "sanitizeIdentifier ''x; DROP TABLE users; --'' = ''xDROPTABLEusers__'' \<and>
   list_all identChar (sanitizeIdentifier ''x; DROP TABLE users; --'') \<and>
   validateIdentifier (dbName b instanceID) = None \<and>
   validateIdentifier (roleName b bindingID) = None \<and>
   list_all safe_statement (Provision_statements b instanceID) \<and>
   (\<exists>n. drop (length (issued st)) (issued (snd (postgres_Provision sys b instanceID st))) =
          take n (Provision_statements b instanceID)) \<and>
   list_all safe_statement (Deprovision_statements b instanceID) \<and>
   (\<exists>n. drop (length (issued st)) (issued (snd (postgres_Deprovision sys b instanceID st))) =
          take n (Deprovision_statements b instanceID)) \<and>
   (list_all lowerHex password \<longrightarrow>
      list_all safe_statement (Bind_statements b instanceID bindingID password)) \<and>
   (\<exists>r pw n. postgres_Bind sys b instanceID bindingID st = Return r \<and> list_all lowerHex pw \<and>
      drop (length (issued st)) (issued (snd r)) =
        take n (Bind_statements b instanceID bindingID pw)) \<and>
   list_all safe_statement (Unbind_statements b instanceID bindingID) \<and>
   (\<exists>n. drop (length (issued st))
            (issued (snd (postgres_Unbind sys b instanceID bindingID st))) =
          take n (Unbind_statements b instanceID bindingID))"
proof -
  have s: "sanitizeIdentifier ''x; DROP TABLE users; --'' = ''xDROPTABLEusers__''"
    by code_simp
  from s identChar_sanitize[of "''x; DROP TABLE users; --''"]
    validate_dbName[of b instanceID] validate_roleName[of b bindingID]
    safe_Provision_statements[of b instanceID] issued_Provision[of st sys b instanceID]
    safe_Deprovision_statements[of b instanceID] issued_Deprovision[of st sys b instanceID]
    safe_Bind_statements[of password b instanceID bindingID]
    issued_Bind[of sys b instanceID bindingID st]
    safe_Unbind_statements[of b instanceID bindingID]
    issued_Unbind[of st sys b instanceID bindingID]
  show ?thesis by blast
qed

text \<open>
  Witness for C3: a hexadecimal password satisfies the hypothesis; with the injection
  attempt as InstanceID, \<open>Provision\<close> sends the existence query with the sanitized name
  bound and \<open>CREATE DATABASE "cf_xDROPTABLEusers__"\<close>. The raw identifier put after the
  keyword would not be a safe statement.
\<close>

theorem statements_quoted_witness:
  "list_all lowerHex ''a7a7a7a7a7a7a7a7a7a7a7a7a7a7a7a7'' \<and>
   list_all safe_statement
     (Bind_statements postgres_broker0 ''x; DROP TABLE users; --'' ''b1''
        ''a7a7a7a7a7a7a7a7a7a7a7a7a7a7a7a7'') \<and>
   issued (snd (postgres_Provision mem_postgres postgres_broker0 ''x; DROP TABLE users; --''
                  (postgres_state0 [] [] []))) =
     [(exists_query, [''cf_xDROPTABLEusers__'']),
      (''CREATE DATABASE '' @ [dquote] @ ''cf_xDROPTABLEusers__'' @ [dquote], [])] \<and>
   \<not> safe_statement (''CREATE DATABASE '' @ ''x; DROP TABLE users; --'', [])"
proof -
  have h: "list_all lowerHex ''a7a7a7a7a7a7a7a7a7a7a7a7a7a7a7a7''"
    by (simp add: lowerHex_def in_range_def)
  have c: "list_all safe_statement
     (Bind_statements postgres_broker0 ''x; DROP TABLE users; --'' ''b1''
        ''a7a7a7a7a7a7a7a7a7a7a7a7a7a7a7a7'')"
    using h statements_quoted[where b = postgres_broker0
        and instanceID = "''x; DROP TABLE users; --''" and bindingID = "''b1''"
        and password = "''a7a7a7a7a7a7a7a7a7a7a7a7a7a7a7a7''"
        and st = "postgres_state0 [] [] []" and sys = mem_postgres]
    by blast
  have i: "issued (snd (postgres_Provision mem_postgres postgres_broker0
                  ''x; DROP TABLE users; --'' (postgres_state0 [] [] []))) =
     [(exists_query, [''cf_xDROPTABLEusers__'']),
      (''CREATE DATABASE '' @ [dquote] @ ''cf_xDROPTABLEusers__'' @ [dquote], [])]"
    by code_simp
  have n: "\<not> safe_statement (''CREATE DATABASE '' @ ''x; DROP TABLE users; --'', [])"
    by code_simp
  from h c i n show ?thesis by blast
qed

end
